theory Spec2Isabelle
  imports Complex_Main "HOL-Library.Multiset"
begin

section \<open>Common Python values\<close>

text \<open>
  Exceptions are values. \<open>InvalidInterviewIdException\<close> is the class of
  \<^verbatim>\<open>interview/exceptions/exceptions.py\<close>; \<open>Exception msg\<close> stands for any other
  exception that is an instance of Python's \<^verbatim>\<open>Exception\<close>, with \<open>str(e) = msg\<close>.
  A function that can raise returns \<open>exn + 'a\<close>, \<open>Inl\<close> being the raise.
\<close>

datatype exn = InvalidInterviewIdException | Exception string

text \<open>A \<^verbatim>\<open>datetime.datetime\<close> is kept as a point on an integer time line.\<close>

type_synonym datetime = int

section \<open>The interview application\<close>

subsection \<open>\<^verbatim>\<open>interview/interactors/storage_interface/dtos.py\<close>\<close>

record InterviewDTO =
  dto_id :: string
  title :: string
  description :: string
  duration :: int

record InterviewAttemptDTO =
  interview_id :: string
  user_id :: string
  start_datetime :: datetime
  end_datetime :: "datetime option"
  scheduled_end_datetime :: "datetime option"

subsection \<open>\<^verbatim>\<open>interview/interactors/storage_interface/storage_interface.py\<close>\<close>

text \<open>
  The abstract storage interface: an implementation is a pair of methods over a storage
  state \<open>'s\<close>. Each method returns its result (or the exception it raises) and the
  storage state it leaves behind.
\<close>

record 's InterviewStorageInterface =
  storage_get_interview_details ::
    "string list \<Rightarrow> 's \<Rightarrow> (exn + InterviewDTO list) \<times> 's"
  storage_create_interview_attempt ::
    "InterviewAttemptDTO \<Rightarrow> 's \<Rightarrow> (exn + string) \<times> 's"

subsection \<open>\<^verbatim>\<open>interview/interactors/create_interview_attempt_interactor.py\<close>\<close>

text \<open>
  The interactor holds the injected storage. Its state is the storage's state together
  with the sequence of calls the interactor has made on the storage, in order, which is
  what a mock of the interface records.
\<close>

datatype storage_call =
    GetInterviewDetails "string list"
  | CreateInterviewAttempt InterviewAttemptDTO

record 's interactor_state =
  storage :: 's
  calls :: "storage_call list"

definition validate_interview_details ::
  "'s InterviewStorageInterface \<Rightarrow> string \<Rightarrow> 's interactor_state
    \<Rightarrow> (exn + unit) \<times> 's interactor_state" where
  "validate_interview_details storage_interface iid st =
     (case storage_get_interview_details storage_interface [iid] (storage st) of
        (r, s') \<Rightarrow>
          (let st' = \<lparr>storage = s', calls = calls st @ [GetInterviewDetails [iid]]\<rparr>
           in case r of
                Inl e \<Rightarrow> (Inl e, st')
              | Inr interview_dtos \<Rightarrow>
                  if interview_dtos = [] then (Inl InvalidInterviewIdException, st')
                  else (Inr (), st')))"

text \<open>
  \<open>now\<close> is the value \<^verbatim>\<open>datetime.datetime.now()\<close> returns at line 21. The method has no
  \<^verbatim>\<open>return\<close> statement: when it returns, it returns \<^verbatim>\<open>None\<close>, the value \<open>()\<close>.
\<close>

definition create_interview_attempt ::
  "'s InterviewStorageInterface \<Rightarrow> datetime \<Rightarrow> string \<Rightarrow> string \<Rightarrow> 's interactor_state
    \<Rightarrow> (exn + unit) \<times> 's interactor_state" where
  "create_interview_attempt storage_interface now iid uid st =
     (case validate_interview_details storage_interface iid st of
        (Inl e, st1) \<Rightarrow> (Inl e, st1)
      | (Inr _, st1) \<Rightarrow>
          (let interview_attempt_dto =
                 \<lparr>interview_id = iid, user_id = uid, start_datetime = now,
                  end_datetime = None, scheduled_end_datetime = None\<rparr>
           in case storage_create_interview_attempt storage_interface
                     interview_attempt_dto (storage st1) of
                (r, s2) \<Rightarrow>
                  (let st2 = \<lparr>storage = s2,
                              calls = calls st1 @ [CreateInterviewAttempt interview_attempt_dto]\<rparr>
                   in case r of Inl e \<Rightarrow> (Inl e, st2) | Inr _ \<Rightarrow> (Inr (), st2))))"

text \<open>The calls of a call sequence that are calls of the create-attempt method.\<close>

fun is_create_call :: "storage_call \<Rightarrow> bool" where
  "is_create_call (CreateInterviewAttempt _) = True"
| "is_create_call (GetInterviewDetails _) = False"

subsection \<open>\<^verbatim>\<open>interview/storages/storage_implementation.py\<close>\<close>

text \<open>
  A keyword argument handed to the ORM is a name with a Python value. The values that
  occur here are strings, datetimes and \<^verbatim>\<open>None\<close>.
\<close>

datatype py_value = PyStr string | PyDatetime datetime | PyNone

fun py_optional_datetime :: "datetime option \<Rightarrow> py_value" where
  "py_optional_datetime None = PyNone"
| "py_optional_datetime (Some d) = PyDatetime d"

text \<open>
  The keyword arguments of the call \<^verbatim>\<open>InterviewAttempt.objects.create(...)\<close> at lines
  30 to 35, in the order written.
\<close>

definition create_kwargs :: "InterviewAttemptDTO \<Rightarrow> (string \<times> py_value) list" where
  "create_kwargs interview_attempt_dto =
     [(''interview_id'', PyStr (interview_id interview_attempt_dto)),
      (''user_id'', PyStr (user_id interview_attempt_dto)),
      (''start_datetime'', PyDatetime (start_datetime interview_attempt_dto)),
      (''end_datetime'', py_optional_datetime (end_datetime interview_attempt_dto))]"

text \<open>
  \<open>objects_create\<close> is the ORM's \<^verbatim>\<open>InterviewAttempt.objects.create\<close> over a database
  state \<open>'db\<close>: from the keyword arguments it inserts a row and returns the new row's
  \<open>id\<close> (or raises). The method returns \<^verbatim>\<open>str\<close> of that id; a UUID is kept as its
  string, so \<^verbatim>\<open>str\<close> leaves it as it is.
\<close>

definition StorageImplementation_create_interview_attempt ::
  "((string \<times> py_value) list \<Rightarrow> 'db \<Rightarrow> (exn + string) \<times> 'db)
    \<Rightarrow> InterviewAttemptDTO \<Rightarrow> 'db \<Rightarrow> (exn + string) \<times> 'db" where
  "StorageImplementation_create_interview_attempt objects_create interview_attempt_dto db =
     (case objects_create (create_kwargs interview_attempt_dto) db of
        (Inl e, db') \<Rightarrow> (Inl e, db')
      | (Inr new_id, db') \<Rightarrow> (Inr new_id, db'))"

text \<open>
  A stand-in for the ORM used to run the method on concrete inputs: it returns the id
  \<open>new_id\<close> and appends the keyword arguments it was given to the table, so the table
  shows what each insert received.
\<close>

definition recording_objects_create ::
  "string \<Rightarrow> (string \<times> py_value) list \<Rightarrow> (string \<times> py_value) list list
    \<Rightarrow> (exn + string) \<times> (string \<times> py_value) list list" where
  "recording_objects_create new_id kwargs rows = (Inr new_id, rows @ [kwargs])"

section \<open>The scripts\<close>

subsection \<open>Strings, dictionaries and the outside world\<close>

text \<open>
  A Python \<^verbatim>\<open>str\<close> is a \<open>string\<close>, one \<open>char\<close> for each code point; the code
  points are the ones below 256, and a text with others has no counterpart here.
  \<open>str(e)\<close> of an exception is its message.
\<close>

abbreviation nl :: string where
  "nl \<equiv> [CHR 0x0A]"

fun exn_str :: "exn \<Rightarrow> string" where
  "exn_str (Exception msg) = msg"
| "exn_str InvalidInterviewIdException = []"

text \<open>
  \<^verbatim>\<open>str.strip()\<close> with no argument removes the leading and the trailing whitespace; the
  whitespace code points below 256 are 9 to 13, 28 to 32, 133 and 160.
\<close>

definition py_isspace :: "char \<Rightarrow> bool" where
  "py_isspace c =
     (let n = (of_char c :: nat)
      in (9 \<le> n \<and> n \<le> 13) \<or> (28 \<le> n \<and> n \<le> 32) \<or> n = 133 \<or> n = 160)"

definition strip :: "string \<Rightarrow> string" where
  "strip text = rev (dropWhile py_isspace (rev (dropWhile py_isspace text)))"

text \<open>The operator \<^verbatim>\<open>sub in text\<close> on strings: \<open>sub\<close> occurs in \<open>text\<close> as a substring.\<close>

fun startswith :: "string \<Rightarrow> string \<Rightarrow> bool" where
  "startswith text [] = True"
| "startswith [] (c # sub) = False"
| "startswith (d # text) (c # sub) = (d = c \<and> startswith text sub)"

fun str_in :: "string \<Rightarrow> string \<Rightarrow> bool" where
  "str_in sub [] = (sub = [])"
| "str_in sub (d # text) = (startswith (d # text) sub \<or> str_in sub text)"

text \<open>\<^verbatim>\<open>sep.join(items)\<close>.\<close>

fun join :: "string \<Rightarrow> string list \<Rightarrow> string" where
  "join sep [] = []"
| "join sep [x] = x"
| "join sep (x # y # ys) = x @ sep @ join sep (y # ys)"

text \<open>
  A dictionary with string keys and string values, as an association list in insertion
  order. \<open>d[k]\<close> raises \<^verbatim>\<open>KeyError\<close>, whose message is the quoted key.
\<close>

type_synonym py_dict = "(string \<times> string) list"

definition getitem :: "py_dict \<Rightarrow> string \<Rightarrow> exn + string" where
  "getitem d k =
     (case map_of d k of
        None \<Rightarrow> Inl (Exception ([CHR 0x27] @ k @ [CHR 0x27]))
      | Some v \<Rightarrow> Inr v)"

text \<open>
  \<^verbatim>\<open>os.path.join(a, b)\<close> with two arguments, on a POSIX system.
\<close>

definition os_path_join :: "string \<Rightarrow> string \<Rightarrow> string" where
  "os_path_join a b =
     (if startswith b ''/'' then b
      else if a = [] \<or> last a = CHR ''/'' then a @ b
      else a @ ''/'' @ b)"

text \<open>An embedding vector is a list of numbers; no arithmetic is done on it.\<close>

type_synonym vector = "real list"

text \<open>
  A \<^verbatim>\<open>pathlib.Path\<close> that the directory walk yields, with the attributes the loop reads:
  \<open>path_str\<close> is \<^verbatim>\<open>str(file_path)\<close> and \<open>relative_str\<close> is
  \<^verbatim>\<open>str(file_path.relative_to(root_path))\<close>.
\<close>

record Path =
  parts :: "string list"
  suffix :: string
  is_file :: bool
  path_str :: string
  relative_str :: string

text \<open>An object returned by the vector store's query: the code reads its properties.\<close>

record weaviate_object =
  properties :: py_dict

text \<open>The JSON body of the chat-completion request.\<close>

record chat_data =
  messages :: "py_dict list"
  temperature :: real
  top_p :: real
  frequency_penalty :: real
  presence_penalty :: real

text \<open>
  Every effect of the scripts on the outside is an event; a run leaves the sequence of
  its events, in order. An event for an operation on a service is recorded when the
  operation is called, whether it then succeeds or raises.
\<close>

datatype event =
    Print string
  | Input string
  | OpenRead Path
  | EmbeddingPost string
  | DataInsert py_dict vector
  | Connect
  | CollectionsGet string
  | NearVector vector int
  | ClientClose
  | ChatPost chat_data
  | MakeDirs string
  | WriteFile string string

text \<open>
  The outside world has a state \<open>'w\<close>; each operation on it returns a result, or the
  exception it raises, and the next state. The record also holds the configuration of
  the scripts: the directory \<open>QUERIES_DIR\<close> and the text of \<open>SYSTEM_PROMPT\<close> before and
  after its only replacement field \<^verbatim>\<open>{code}\<close>.
  \<^item> \<open>read_file\<close>: \<^verbatim>\<open>open(file_path, 'r', encoding='utf-8')\<close> and \<^verbatim>\<open>f.read()\<close>;
  \<^item> \<open>embedding_post\<close>: the request to the embedding endpoint, \<^verbatim>\<open>raise_for_status\<close> and
    the JSON path \<^verbatim>\<open>data[0].embedding\<close>;
  \<^item> \<open>data_insert\<close>: \<^verbatim>\<open>collection.data.insert(properties=..., vector=...)\<close>;
  \<^item> \<open>connect\<close>: \<^verbatim>\<open>weaviate.connect_to_weaviate_cloud(...)\<close>;
  \<^item> \<open>collections_get\<close>: \<^verbatim>\<open>client.collections.get(name)\<close>;
  \<^item> \<open>near_vector\<close>: \<^verbatim>\<open>collection.query.near_vector(near_vector=..., limit=...)\<close> and
    its \<^verbatim>\<open>objects\<close>;
  \<^item> \<open>client_close\<close>: \<^verbatim>\<open>client.close()\<close>;
  \<^item> \<open>chat_post\<close>: the request to the chat endpoint, \<^verbatim>\<open>raise_for_status\<close> and the
    JSON path \<^verbatim>\<open>choices[0].message.content\<close>;
  \<^item> \<open>makedirs\<close>: \<^verbatim>\<open>os.makedirs(dir, exist_ok=True)\<close>;
  \<^item> \<open>write_file\<close>: \<^verbatim>\<open>open(filename, 'w')\<close> and \<^verbatim>\<open>f.write(content)\<close>;
  \<^item> \<open>read_input\<close>: \<^verbatim>\<open>input(prompt)\<close>;
  \<^item> \<open>clock\<close>: \<^verbatim>\<open>datetime.now()\<close>; \<open>strftime fmt t\<close>: \<^verbatim>\<open>t.strftime(fmt)\<close>.
\<close>

record 'w services =
  read_file :: "Path \<Rightarrow> 'w \<Rightarrow> (exn + string) \<times> 'w"
  embedding_post :: "string \<Rightarrow> 'w \<Rightarrow> (exn + vector) \<times> 'w"
  data_insert :: "py_dict \<Rightarrow> vector \<Rightarrow> 'w \<Rightarrow> (exn + unit) \<times> 'w"
  connect :: "'w \<Rightarrow> (exn + unit) \<times> 'w"
  collections_get :: "string \<Rightarrow> 'w \<Rightarrow> (exn + unit) \<times> 'w"
  near_vector :: "vector \<Rightarrow> int \<Rightarrow> 'w \<Rightarrow> (exn + weaviate_object list) \<times> 'w"
  client_close :: "'w \<Rightarrow> (exn + unit) \<times> 'w"
  chat_post :: "chat_data \<Rightarrow> 'w \<Rightarrow> (exn + string) \<times> 'w"
  makedirs :: "string \<Rightarrow> 'w \<Rightarrow> (exn + unit) \<times> 'w"
  write_file :: "string \<Rightarrow> string \<Rightarrow> 'w \<Rightarrow> (exn + unit) \<times> 'w"
  read_input :: "string \<Rightarrow> 'w \<Rightarrow> (exn + string) \<times> 'w"
  clock :: "'w \<Rightarrow> datetime \<times> 'w"
  strftime :: "string \<Rightarrow> datetime \<Rightarrow> string"
  QUERIES_DIR :: string
  SYSTEM_PROMPT_before :: string
  SYSTEM_PROMPT_after :: string

record 'w run_state =
  world :: 'w
  trace :: "event list"

definition call :: "event \<Rightarrow> ('w \<Rightarrow> 'a \<times> 'w) \<Rightarrow> 'w run_state \<Rightarrow> 'a \<times> 'w run_state" where
  "call ev operation s =
     (case operation (world s) of (r, w') \<Rightarrow> (r, \<lparr>world = w', trace = trace s @ [ev]\<rparr>))"

definition print :: "string \<Rightarrow> 'w run_state \<Rightarrow> 'w run_state" where
  "print line s = \<lparr>world = world s, trace = trace s @ [Print line]\<rparr>"

definition datetime_now :: "'w services \<Rightarrow> 'w run_state \<Rightarrow> datetime \<times> 'w run_state" where
  "datetime_now env s =
     (case clock env (world s) of (t, w') \<Rightarrow> (t, \<lparr>world = w', trace = trace s\<rparr>))"

subsection \<open>\<^verbatim>\<open>scripts/index_code_base.py\<close>\<close>

text \<open>
  \<^verbatim>\<open>get_azure_embedding\<close> catches every exception of the request, prints it and returns
  \<^verbatim>\<open>None\<close>.
\<close>

definition get_azure_embedding ::
  "'w services \<Rightarrow> string \<Rightarrow> 'w run_state \<Rightarrow> vector option \<times> 'w run_state" where
  "get_azure_embedding env text s =
     (case call (EmbeddingPost text) (embedding_post env text) s of
        (Inl e, s') \<Rightarrow> (None, print (''Error getting embeddings: '' @ exn_str e) s')
      | (Inr v, s') \<Rightarrow> (Some v, s'))"

definition excluded_dirs :: "string list" where
  "excluded_dirs = [''scripts'', ''venv'', ''.specstory'']"

definition should_process_the_file :: "Path \<Rightarrow> bool" where
  "should_process_the_file file_path =
     (is_file file_path \<and> str_in ''.py'' (suffix file_path) \<and>
      \<not> list_ex (\<lambda>excluded_dir. excluded_dir \<in> set (parts file_path)) excluded_dirs)"

text \<open>\<^verbatim>\<open>not embedding\<close>: \<^verbatim>\<open>None\<close> and the empty list are false.\<close>

fun not_embedding :: "vector option \<Rightarrow> bool" where
  "not_embedding None = True"
| "not_embedding (Some v) = (v = [])"

text \<open>
  One iteration of the loop of \<^verbatim>\<open>index_code_base\<close>, lines 71 to 101, for the path
  \<open>file_path\<close>. The \<^verbatim>\<open>except Exception\<close> clause ends every failure inside the
  \<^verbatim>\<open>try\<close> block with a printed line, so an iteration always ends in a state.
\<close>

definition index_file :: "'w services \<Rightarrow> Path \<Rightarrow> 'w run_state \<Rightarrow> 'w run_state" where
  "index_file env file_path s =
     (if \<not> should_process_the_file file_path then s
      else
        (case call (OpenRead file_path) (read_file env file_path) s of
           (Inl e, s1) \<Rightarrow>
             print (''Error processing '' @ path_str file_path @ '': '' @ exn_str e) s1
         | (Inr content, s1) \<Rightarrow>
             if strip content = [] then s1
             else
               (case get_azure_embedding env content s1 of
                  (embedding, s2) \<Rightarrow>
                    if not_embedding embedding
                    then print (''Error processing '' @ path_str file_path @ '': '' @
                                exn_str (Exception ''Failed to get embedding'')) s2
                    else
                      (case embedding of
                         None \<Rightarrow> s2
                       | Some v \<Rightarrow>
                           (case call
                                   (DataInsert [(''file_path'', relative_str file_path),
                                                (''content'', content)] v)
                                   (data_insert env
                                      [(''file_path'', relative_str file_path),
                                       (''content'', content)] v) s2 of
                              (Inl e, s3) \<Rightarrow>
                                print (''Error processing '' @ path_str file_path @ '': '' @
                                       exn_str e) s3
                            | (Inr _, s3) \<Rightarrow>
                                print (''Processed: '' @ relative_str file_path) s3)))))"

text \<open>The loop over the paths that \<^verbatim>\<open>root_path.glob('**/*')\<close> yields, in that order.\<close>

fun index_loop :: "'w services \<Rightarrow> Path list \<Rightarrow> 'w run_state \<Rightarrow> 'w run_state" where
  "index_loop env [] s = s"
| "index_loop env (file_path # rest) s = index_loop env rest (index_file env file_path s)"

text \<open>
  \<^verbatim>\<open>index_code_base\<close>: \<open>glob\<close> is the list of paths under the root directory. The
  lookup of the collection at line 66 is outside the loop and its \<^verbatim>\<open>try\<close>.
\<close>

definition index_code_base ::
  "'w services \<Rightarrow> Path list \<Rightarrow> 'w run_state \<Rightarrow> (exn + unit) \<times> 'w run_state" where
  "index_code_base env glob s =
     (case call (CollectionsGet ''CodeFile'') (collections_get env ''CodeFile'') s of
        (Inl e, s') \<Rightarrow> (Inl e, s')
      | (Inr _, s') \<Rightarrow> (Inr (), index_loop env glob s'))"

subsection \<open>\<^verbatim>\<open>scripts/search_code_base.py\<close>\<close>

text \<open>\<^verbatim>\<open>get_vector_embedding\<close> prints the exception of the request and raises it again.\<close>

definition get_vector_embedding ::
  "'w services \<Rightarrow> string \<Rightarrow> 'w run_state \<Rightarrow> (exn + vector) \<times> 'w run_state" where
  "get_vector_embedding env text s =
     (case call (EmbeddingPost text) (embedding_post env text) s of
        (Inl e, s') \<Rightarrow> (Inl e, print (''Error getting embeddings: '' @ exn_str e) s')
      | (Inr v, s') \<Rightarrow> (Inr v, s'))"

definition create_weaviate_client ::
  "'w services \<Rightarrow> 'w run_state \<Rightarrow> (exn + unit) \<times> 'w run_state" where
  "create_weaviate_client env s = call Connect (connect env) s"

text \<open>
  The loop of lines 68 to 73: one dictionary with the keys \<^verbatim>\<open>file_path\<close> and
  \<^verbatim>\<open>content\<close> is appended for each object, in order.
\<close>

fun append_matches :: "weaviate_object list \<Rightarrow> py_dict list \<Rightarrow> exn + py_dict list" where
  "append_matches [] matches = Inr matches"
| "append_matches (obj # objs) matches =
     (case getitem (properties obj) ''file_path'' of
        Inl e \<Rightarrow> Inl e
      | Inr fp \<Rightarrow>
          (case getitem (properties obj) ''content'' of
             Inl e \<Rightarrow> Inl e
           | Inr c \<Rightarrow>
               append_matches objs (matches @ [[(''file_path'', fp), (''content'', c)]])))"

text \<open>The body of the \<^verbatim>\<open>try\<close> statement of \<^verbatim>\<open>search_code_base\<close>, lines 58 to 75.\<close>

definition search_try ::
  "'w services \<Rightarrow> vector \<Rightarrow> int \<Rightarrow> 'w run_state \<Rightarrow> (exn + py_dict list) \<times> 'w run_state" where
  "search_try env query_embedding limit s =
     (case call (CollectionsGet ''CodeFile'') (collections_get env ''CodeFile'') s of
        (Inl e, s1) \<Rightarrow> (Inl e, s1)
      | (Inr _, s1) \<Rightarrow>
          (case call (NearVector query_embedding limit)
                  (near_vector env query_embedding limit) s1 of
             (Inl e, s2) \<Rightarrow> (Inl e, s2)
           | (Inr objects, s2) \<Rightarrow> (append_matches objects [], s2)))"

text \<open>
  \<^verbatim>\<open>search_code_base(query, limit=5)\<close>: the argument \<open>limit_arg\<close> is \<open>None\<close> when the
  caller leaves \<^verbatim>\<open>limit\<close> out. The \<^verbatim>\<open>finally\<close> clause closes the client after the
  \<^verbatim>\<open>try\<close> body, whatever its outcome; an exception of \<^verbatim>\<open>close\<close> replaces it.
\<close>

definition search_code_base ::
  "'w services \<Rightarrow> string \<Rightarrow> int option \<Rightarrow> 'w run_state
    \<Rightarrow> (exn + py_dict list) \<times> 'w run_state" where
  "search_code_base env query limit_arg s =
     (let limit = (case limit_arg of None \<Rightarrow> 5 | Some l \<Rightarrow> l)
      in case get_vector_embedding env query s of
           (Inl e, s1) \<Rightarrow> (Inl e, s1)
         | (Inr query_embedding, s1) \<Rightarrow>
             (case create_weaviate_client env s1 of
                (Inl e, s2) \<Rightarrow> (Inl e, s2)
              | (Inr _, s2) \<Rightarrow>
                  (case search_try env query_embedding limit s2 of
                     (r, s3) \<Rightarrow>
                       (case call ClientClose (client_close env) s3 of
                          (Inl e, s4) \<Rightarrow> (Inl e, s4)
                        | (Inr _, s4) \<Rightarrow> (r, s4)))))"

text \<open>
  \<open>is_match_of m obj\<close>: the dictionary \<open>m\<close> has exactly the two keys \<^verbatim>\<open>file_path\<close> and
  \<^verbatim>\<open>content\<close>, with the values that the properties of \<open>obj\<close> have for them.
\<close>

definition is_match_of :: "py_dict \<Rightarrow> weaviate_object \<Rightarrow> bool" where
  "is_match_of m obj =
     (case (map_of (properties obj) ''file_path'', map_of (properties obj) ''content'') of
        (Some fp, Some c) \<Rightarrow> m = [(''file_path'', fp), (''content'', c)]
      | _ \<Rightarrow> False)"

subsection \<open>\<^verbatim>\<open>scripts/generate_task_plan.py\<close>\<close>

text \<open>The loop of \<^verbatim>\<open>format_code_context\<close>, lines 21 to 23, and the function.\<close>

fun append_formatted :: "py_dict list \<Rightarrow> string list \<Rightarrow> exn + string list" where
  "append_formatted [] formatted_results = Inr formatted_results"
| "append_formatted (result # rest) formatted_results =
     (case getitem result ''file_path'' of
        Inl e \<Rightarrow> Inl e
      | Inr fp \<Rightarrow>
          (case getitem result ''content'' of
             Inl e \<Rightarrow> Inl e
           | Inr c \<Rightarrow>
               append_formatted rest
                 (formatted_results @
                  [''File: '' @ fp @ nl @ ''```python'' @ nl @ c @ nl @ ''```'' @ nl])))"

definition format_code_context :: "py_dict list \<Rightarrow> exn + string" where
  "format_code_context search_results =
     (case append_formatted search_results [] of
        Inl e \<Rightarrow> Inl e
      | Inr formatted_results \<Rightarrow> Inr (join nl formatted_results))"

definition chat_request :: "string \<Rightarrow> string \<Rightarrow> chat_data" where
  "chat_request system_prompt user_query =
     \<lparr>messages = [[(''role'', ''system''), (''content'', system_prompt)],
                  [(''role'', ''user''), (''content'', user_query)]],
      temperature = 0, top_p = 1, frequency_penalty = 0, presence_penalty = 0.5\<rparr>"

definition get_chat_completion ::
  "'w services \<Rightarrow> string \<Rightarrow> string \<Rightarrow> 'w run_state \<Rightarrow> (exn + string) \<times> 'w run_state" where
  "get_chat_completion env system_prompt user_query s =
     (let data = chat_request system_prompt user_query
      in case call (ChatPost data) (chat_post env data) s of
           (Inl e, s') \<Rightarrow> (Inl e, print (''Error getting chat completion: '' @ exn_str e) s')
         | (Inr answer, s') \<Rightarrow> (Inr answer, s'))"

text \<open>The name and the text of the markdown file of \<^verbatim>\<open>save_query_and_response\<close>.\<close>

definition query_filename :: "'w services \<Rightarrow> datetime \<Rightarrow> string" where
  "query_filename env t =
     os_path_join (QUERIES_DIR env) (''query_'' @ strftime env ''%Y%m%d_%H%M%S'' t @ ''.md'')"

definition query_content :: "'w services \<Rightarrow> datetime \<Rightarrow> string \<Rightarrow> string \<Rightarrow> string \<Rightarrow> string" where
  "query_content env t query task_plan code_context =
     ''# Task Query - '' @ strftime env ''%Y-%m-%d %H:%M:%S'' t @ nl @ nl @
     ''## User Query'' @ nl @ query @ nl @ nl @
     ''## Task Plan'' @ nl @ task_plan @ nl @ nl @
     ''## Relevant Code Context'' @ nl @ code_context @ nl"

definition save_query_and_response ::
  "'w services \<Rightarrow> string \<Rightarrow> string \<Rightarrow> string \<Rightarrow> 'w run_state
    \<Rightarrow> (exn + unit) \<times> 'w run_state" where
  "save_query_and_response env query task_plan code_context s =
     (case call (MakeDirs (QUERIES_DIR env)) (makedirs env (QUERIES_DIR env)) s of
        (Inl e, s1) \<Rightarrow> (Inl e, s1)
      | (Inr _, s1) \<Rightarrow>
          (case datetime_now env s1 of
             (t1, s2) \<Rightarrow>
               (case datetime_now env s2 of
                  (t2, s3) \<Rightarrow>
                    (let filename = query_filename env t1;
                         content = query_content env t2 query task_plan code_context
                     in case call (WriteFile filename content)
                               (write_file env filename content) s3 of
                          (Inl e, s4) \<Rightarrow> (Inl e, s4)
                        | (Inr _, s4) \<Rightarrow>
                            (Inr (),
                             print (nl @ ''Query and response saved to: '' @ filename) s4)))))"

text \<open>
  The body of the \<^verbatim>\<open>try\<close> statement of \<^verbatim>\<open>generate_task_plan\<close>, lines 93 to 107.
  \<^verbatim>\<open>SYSTEM_PROMPT.format(code=code_context)\<close> puts \<open>code_context\<close> in the place of the
  replacement field.
\<close>

definition generate_task_plan_try ::
  "'w services \<Rightarrow> string \<Rightarrow> 'w run_state \<Rightarrow> (exn + unit) \<times> 'w run_state" where
  "generate_task_plan_try env user_query s =
     (case search_code_base env user_query None
             (print (nl @ ''Searching for relevant code files...'') s) of
        (Inl e, s1) \<Rightarrow> (Inl e, s1)
      | (Inr search_results, s1) \<Rightarrow>
          (case format_code_context search_results of
             Inl e \<Rightarrow> (Inl e, s1)
           | Inr code_context \<Rightarrow>
               (let system_prompt =
                      SYSTEM_PROMPT_before env @ code_context @ SYSTEM_PROMPT_after env
                in case get_chat_completion env system_prompt user_query
                          (print (nl @ ''Generating task plan...'') s1) of
                     (Inl e, s2) \<Rightarrow> (Inl e, s2)
                   | (Inr task_plan, s2) \<Rightarrow>
                       (case save_query_and_response env user_query task_plan code_context s2 of
                          (Inl e, s3) \<Rightarrow> (Inl e, s3)
                        | (Inr _, s3) \<Rightarrow>
                            (Inr (),
                             print (replicate 80 CHR ''='')
                               (print task_plan
                                  (print (replicate 80 CHR ''='')
                                     (print (nl @ ''Task Plan:'') s3))))))))"

text \<open>
  \<^verbatim>\<open>generate_task_plan\<close>: the line of input is read before the \<^verbatim>\<open>try\<close> statement; the
  \<^verbatim>\<open>except Exception\<close> clause prints the exception and the function returns.
\<close>

definition generate_task_plan ::
  "'w services \<Rightarrow> 'w run_state \<Rightarrow> (exn + unit) \<times> 'w run_state" where
  "generate_task_plan env s =
     (case call (Input ''Enter your task description: '')
             (read_input env ''Enter your task description: '') s of
        (Inl e, s0) \<Rightarrow> (Inl e, s0)
      | (Inr user_query, s0) \<Rightarrow>
          (case generate_task_plan_try env user_query s0 of
             (Inl e, s1) \<Rightarrow>
               (Inr (), print (''Error during task planning: '' @ exn_str e) s1)
           | (Inr _, s1) \<Rightarrow> (Inr (), s1)))"

subsection \<open>A world in memory\<close>

text \<open>
  A small outside world on which the scripts can be run: files and embeddings are
  looked up in tables (a missing entry is a failure), the collection is the list of
  inserted objects and a query returns its first \<open>limit\<close> objects, but inserts and
  queries fail while the store is down (\<open>mw_store_up\<close> is false), the chat endpoint
  answers with a fixed text or fails, and written files are appended to a table.
\<close>

record memory_world =
  mw_files :: "(string \<times> string) list"
  mw_embeddings :: "(string \<times> vector) list"
  mw_collection :: "(py_dict \<times> vector) list"
  mw_store_up :: bool
  mw_chat :: "string option"
  mw_written :: "(string \<times> string) list"
  mw_stdin :: string

definition memory_services :: "memory_world services" where
  "memory_services =
     \<lparr>read_file = (\<lambda>p w.
        (case map_of (mw_files w) (path_str p) of
           None \<Rightarrow> Inl (Exception ''No such file or directory'')
         | Some c \<Rightarrow> Inr c, w)),
      embedding_post = (\<lambda>t w.
        (case map_of (mw_embeddings w) t of
           None \<Rightarrow> Inl (Exception ''503 Server Error'')
         | Some v \<Rightarrow> Inr v, w)),
      data_insert = (\<lambda>props v w.
        if mw_store_up w
        then (Inr (), w\<lparr>mw_collection := mw_collection w @ [(props, v)]\<rparr>)
        else (Inl (Exception ''Connection refused''), w)),
      connect = (\<lambda>w. (Inr (), w)),
      collections_get = (\<lambda>name w. (Inr (), w)),
      near_vector = (\<lambda>v limit w.
        if mw_store_up w
        then (Inr (map (\<lambda>stored. \<lparr>properties = fst stored\<rparr>)
                     (take (nat limit) (mw_collection w))), w)
        else (Inl (Exception ''Connection refused''), w)),
      client_close = (\<lambda>w. (Inr (), w)),
      chat_post = (\<lambda>data w.
        (case mw_chat w of
           None \<Rightarrow> Inl (Exception ''500 Server Error'')
         | Some answer \<Rightarrow> Inr answer, w)),
      makedirs = (\<lambda>dir w. (Inr (), w)),
      write_file = (\<lambda>name text w. (Inr (), w\<lparr>mw_written := mw_written w @ [(name, text)]\<rparr>)),
      read_input = (\<lambda>prompt w. (Inr (mw_stdin w), w)),
      clock = (\<lambda>w. (0, w)),
      strftime = (\<lambda>fmt t.
        if fmt = ''%Y%m%d_%H%M%S'' then ''20240101_000000'' else ''2024-01-01 00:00:00''),
      QUERIES_DIR = ''scripts/queries'',
      SYSTEM_PROMPT_before = ''Relevant Code snippets: '',
      SYSTEM_PROMPT_after = '' Output Requirements''\<rparr>"

text \<open>
  Paths and a world for running the scripts on concrete inputs: a directory \<open>app\<close>
  with three files, of which \<open>__init__.py\<close> holds only whitespace; the embedding
  endpoint answers for the text of \<open>b.py\<close> and for the query, and fails for the text of
  \<open>a.py\<close>; the collection is empty.
\<close>

definition demo_path :: "string \<Rightarrow> string \<Rightarrow> Path" where
  "demo_path name sfx =
     \<lparr>parts = [''app'', name], suffix = sfx, is_file = True,
      path_str = ''app/'' @ name, relative_str = name\<rparr>"

definition demo_world :: "bool \<Rightarrow> string option \<Rightarrow> memory_world" where
  "demo_world store_up answer =
     \<lparr>mw_files = [(''app/a.py'', ''x = 1''), (''app/b.py'', ''y = 2''),
                  (''app/__init__.py'', '' '' @ nl)],
      mw_embeddings = [(''y = 2'', [1, 2]), (''add y'', [1, 2])],
      mw_collection = [], mw_store_up = store_up, mw_chat = answer, mw_written = [],
      mw_stdin = ''add y''\<rparr>"

text \<open>The same world after two files have been indexed.\<close>

definition demo_indexed :: "bool \<Rightarrow> string option \<Rightarrow> memory_world" where
  "demo_indexed store_up answer =
     (demo_world store_up answer)
       \<lparr>mw_collection :=
          [([(''file_path'', ''b.py''), (''content'', ''y = 2'')], [1, 2]),
           ([(''file_path'', ''c.py''), (''content'', ''z = 3'')], [3, 4])]\<rparr>"

subsection \<open>A storage in memory\<close>

text \<open>
  An implementation of the storage interface on which the interactor can be run: the state
  is the list of interviews and the list of attempts created so far.
\<close>

definition memory_storage ::
  "(InterviewDTO list \<times> InterviewAttemptDTO list) InterviewStorageInterface" where
  "memory_storage =
     \<lparr>storage_get_interview_details = (\<lambda>interview_ids s.
        (Inr (filter (\<lambda>d. dto_id d \<in> set interview_ids) (fst s)), s)),
      storage_create_interview_attempt = (\<lambda>dto s.
        (Inr ''attempt-1'', (fst s, snd s @ [dto])))\<rparr>"

section \<open>Properties of the interview application\<close>

text \<open>
  C1. When the storage's \<open>get_interview_details([interview_id])\<close> returns the empty list,
  \<open>create_interview_attempt\<close> raises \<open>InvalidInterviewIdException\<close>, the only call made
  on the storage is that lookup, so the create-attempt method of the storage is not
  called, and the storage is left in the state the lookup left it in.
\<close>

theorem create_interview_attempt_invalid_id:
  assumes "fst (storage_get_interview_details si [iid] (storage st)) = Inr []"
  shows "fst (create_interview_attempt si now iid uid st) = Inl InvalidInterviewIdException
       \<and> calls (snd (create_interview_attempt si now iid uid st))
           = calls st @ [GetInterviewDetails [iid]]
       \<and> filter is_create_call (calls (snd (create_interview_attempt si now iid uid st)))
           = filter is_create_call (calls st)
       \<and> storage (snd (create_interview_attempt si now iid uid st))
           = snd (storage_get_interview_details si [iid] (storage st))"
  using assms
  by (auto simp: create_interview_attempt_def validate_interview_details_def Let_def
           split: prod.splits sum.splits)

theorem create_interview_attempt_invalid_id_witness:
  "fst (storage_get_interview_details memory_storage [''i2'']
          (storage \<lparr>storage = ([\<lparr>dto_id = ''i1'', title = ''T'', description = ''D'',
                                  duration = 60\<rparr>], []), calls = []\<rparr>)) = Inr []
   \<and> fst (create_interview_attempt memory_storage 7 ''i2'' ''u1''
            \<lparr>storage = ([\<lparr>dto_id = ''i1'', title = ''T'', description = ''D'',
                           duration = 60\<rparr>], []), calls = []\<rparr>)
       = Inl InvalidInterviewIdException
   \<and> calls (snd (create_interview_attempt memory_storage 7 ''i2'' ''u1''
            \<lparr>storage = ([\<lparr>dto_id = ''i1'', title = ''T'', description = ''D'',
                           duration = 60\<rparr>], []), calls = []\<rparr>))
       = [GetInterviewDetails [''i2'']]
   \<and> snd (storage (snd (create_interview_attempt memory_storage 7 ''i2'' ''u1''
            \<lparr>storage = ([\<lparr>dto_id = ''i1'', title = ''T'', description = ''D'',
                           duration = 60\<rparr>], []), calls = []\<rparr>))) = []"
  using create_interview_attempt_invalid_id
    [of memory_storage "''i2''"
        "\<lparr>storage = ([\<lparr>dto_id = ''i1'', title = ''T'', description = ''D'',
                        duration = 60\<rparr>], []), calls = []\<rparr>" 7 "''u1''"]
  by (simp add: memory_storage_def)

text \<open>
  C2. When the lookup returns a non-empty list, the interactor makes exactly two calls on
  the storage: the lookup, and one call of the create-attempt method with the record whose
  \<open>start_datetime\<close> is the current time and whose \<open>end_datetime\<close> and
  \<open>scheduled_end_datetime\<close> are \<^verbatim>\<open>None\<close>. The storage is left in the state in which
  that one call of the create-attempt method, made on the state the lookup left, leaves
  it. When the storage method returns, the interactor returns \<^verbatim>\<open>None\<close> (the value
  \<open>()\<close>), whatever id the storage returned; an exception of the storage method is
  passed on.
\<close>

theorem create_interview_attempt_valid_id:
  assumes "fst (storage_get_interview_details si [iid] (storage st)) = Inr interview_dtos"
      and "interview_dtos \<noteq> []"
  shows "calls (snd (create_interview_attempt si now iid uid st))
           = calls st @ [GetInterviewDetails [iid],
                         CreateInterviewAttempt
                           \<lparr>interview_id = iid, user_id = uid, start_datetime = now,
                            end_datetime = None, scheduled_end_datetime = None\<rparr>]
       \<and> fst (create_interview_attempt si now iid uid st)
           = (case fst (storage_create_interview_attempt si
                          \<lparr>interview_id = iid, user_id = uid, start_datetime = now,
                           end_datetime = None, scheduled_end_datetime = None\<rparr>
                          (snd (storage_get_interview_details si [iid] (storage st)))) of
                Inl e \<Rightarrow> Inl e | Inr new_id \<Rightarrow> Inr ())
       \<and> storage (snd (create_interview_attempt si now iid uid st))
           = snd (storage_create_interview_attempt si
                    \<lparr>interview_id = iid, user_id = uid, start_datetime = now,
                     end_datetime = None, scheduled_end_datetime = None\<rparr>
                    (snd (storage_get_interview_details si [iid] (storage st))))"
  using assms
  by (auto simp: create_interview_attempt_def validate_interview_details_def Let_def
           split: prod.splits sum.splits)

theorem create_interview_attempt_valid_id_witness:
  "fst (storage_get_interview_details memory_storage [''i1'']
          (storage \<lparr>storage = ([\<lparr>dto_id = ''i1'', title = ''T'', description = ''D'',
                                  duration = 60\<rparr>], []), calls = []\<rparr>))
     = Inr [\<lparr>dto_id = ''i1'', title = ''T'', description = ''D'', duration = 60\<rparr>]
   \<and> calls (snd (create_interview_attempt memory_storage 7 ''i1'' ''u1''
            \<lparr>storage = ([\<lparr>dto_id = ''i1'', title = ''T'', description = ''D'',
                           duration = 60\<rparr>], []), calls = []\<rparr>))
       = [GetInterviewDetails [''i1''],
          CreateInterviewAttempt
            \<lparr>interview_id = ''i1'', user_id = ''u1'', start_datetime = 7,
             end_datetime = None, scheduled_end_datetime = None\<rparr>]
   \<and> fst (create_interview_attempt memory_storage 7 ''i1'' ''u1''
            \<lparr>storage = ([\<lparr>dto_id = ''i1'', title = ''T'', description = ''D'',
                           duration = 60\<rparr>], []), calls = []\<rparr>) = Inr ()
   \<and> storage (snd (create_interview_attempt memory_storage 7 ''i1'' ''u1''
            \<lparr>storage = ([\<lparr>dto_id = ''i1'', title = ''T'', description = ''D'',
                           duration = 60\<rparr>], []), calls = []\<rparr>))
       = ([\<lparr>dto_id = ''i1'', title = ''T'', description = ''D'', duration = 60\<rparr>],
          [\<lparr>interview_id = ''i1'', user_id = ''u1'', start_datetime = 7,
            end_datetime = None, scheduled_end_datetime = None\<rparr>])"
  using create_interview_attempt_valid_id
    [of memory_storage "''i1''"
        "\<lparr>storage = ([\<lparr>dto_id = ''i1'', title = ''T'', description = ''D'',
                        duration = 60\<rparr>], []), calls = []\<rparr>"
        "[\<lparr>dto_id = ''i1'', title = ''T'', description = ''D'', duration = 60\<rparr>]"
        7 "''u1''"]
  by (simp add: memory_storage_def)

text \<open>
  C9. The keyword arguments that \<open>StorageImplementation.create_interview_attempt\<close> hands
  to the insert are \<open>interview_id\<close>, \<open>user_id\<close>, \<open>start_datetime\<close> and \<open>end_datetime\<close>
  and no other. They do not depend on the \<open>scheduled_end_datetime\<close> of the record, and
  so, whatever the insert does with its arguments, neither the result nor the database
  after the call depends on it.
\<close>

theorem scheduled_end_datetime_not_forwarded:
  "map fst (create_kwargs interview_attempt_dto)
     = [''interview_id'', ''user_id'', ''start_datetime'', ''end_datetime'']
   \<and> create_kwargs (interview_attempt_dto\<lparr>scheduled_end_datetime := x\<rparr>)
       = create_kwargs interview_attempt_dto
   \<and> StorageImplementation_create_interview_attempt objects_create
        (interview_attempt_dto\<lparr>scheduled_end_datetime := x\<rparr>) db
       = StorageImplementation_create_interview_attempt objects_create interview_attempt_dto db"
  by (simp add: create_kwargs_def StorageImplementation_create_interview_attempt_def)

theorem scheduled_end_datetime_not_forwarded_witness:
  "StorageImplementation_create_interview_attempt (recording_objects_create ''a1'')
     \<lparr>interview_id = ''i1'', user_id = ''u1'', start_datetime = 7,
      end_datetime = None, scheduled_end_datetime = Some 99\<rparr> []
   = (Inr ''a1'',
      [[(''interview_id'', PyStr ''i1''), (''user_id'', PyStr ''u1''),
        (''start_datetime'', PyDatetime 7), (''end_datetime'', PyNone)]])
   \<and> StorageImplementation_create_interview_attempt (recording_objects_create ''a1'')
     \<lparr>interview_id = ''i1'', user_id = ''u1'', start_datetime = 7,
      end_datetime = None, scheduled_end_datetime = None\<rparr> []
   = (Inr ''a1'',
      [[(''interview_id'', PyStr ''i1''), (''user_id'', PyStr ''u1''),
        (''start_datetime'', PyDatetime 7), (''end_datetime'', PyNone)]])"
  using scheduled_end_datetime_not_forwarded
    [of "\<lparr>interview_id = ''i1'', user_id = ''u1'', start_datetime = 7,
          end_datetime = None, scheduled_end_datetime = None\<rparr>" "Some 99"
        "recording_objects_create ''a1''" "[]"]
  by (simp add: StorageImplementation_create_interview_attempt_def create_kwargs_def
        recording_objects_create_def)

section \<open>Properties of the scripts\<close>

subsection \<open>Strings and the indexing loop\<close>

lemma startswith_iff: "startswith t sub \<longleftrightarrow> (\<exists>post. t = sub @ post)"
  by (induction t sub rule: startswith.induct) auto

lemma str_in_iff: "str_in sub t \<longleftrightarrow> (\<exists>pre post. t = pre @ sub @ post)"
proof (induction t)
  case Nil
  then show ?case by simp
next
  case (Cons d t)
  show ?case
  proof
    assume "str_in sub (d # t)"
    then consider "startswith (d # t) sub" | "str_in sub t" by auto
    then show "\<exists>pre post. d # t = pre @ sub @ post"
    proof cases
      case 1
      then obtain post where "d # t = sub @ post" using startswith_iff by blast
      then have "d # t = [] @ sub @ post" by simp
      then show ?thesis by blast
    next
      case 2
      then obtain pre post where "t = pre @ sub @ post" using Cons.IH by blast
      then have "d # t = (d # pre) @ sub @ post" by simp
      then show ?thesis by blast
    qed
  next
    assume "\<exists>pre post. d # t = pre @ sub @ post"
    then obtain pre post where eq: "d # t = pre @ sub @ post" by blast
    show "str_in sub (d # t)"
    proof (cases pre)
      case Nil
      with eq have "startswith (d # t) sub" using startswith_iff by auto
      then show ?thesis by simp
    next
      case (Cons p pre')
      with eq have "t = pre' @ sub @ post" by simp
      then have "str_in sub t" using Cons.IH by blast
      then show ?thesis by simp
    qed
  qed
qed

lemma strip_empty_iff: "strip t = [] \<longleftrightarrow> (\<forall>c \<in> set t. py_isspace c)"
proof -
  have "(\<forall>x \<in> set (dropWhile py_isspace t). py_isspace x) \<longleftrightarrow> dropWhile py_isspace t = []"
  proof
    assume a: "\<forall>x \<in> set (dropWhile py_isspace t). py_isspace x"
    show "dropWhile py_isspace t = []"
    proof (rule ccontr)
      assume ne: "dropWhile py_isspace t \<noteq> []"
      then have "\<not> py_isspace (hd (dropWhile py_isspace t))" by (rule hd_dropWhile)
      moreover have "hd (dropWhile py_isspace t) \<in> set (dropWhile py_isspace t)"
        using ne by simp
      ultimately show False using a by blast
    qed
  next
    assume e: "dropWhile py_isspace t = []"
    show "\<forall>x \<in> set (dropWhile py_isspace t). py_isspace x"
      unfolding e by simp
  qed
  then show ?thesis
    by (simp add: strip_def)
qed

lemma should_process_iff:
  "should_process_the_file file_path \<longleftrightarrow>
     is_file file_path \<and> (\<exists>pre post. suffix file_path = pre @ ''.py'' @ post) \<and>
     ''scripts'' \<notin> set (parts file_path) \<and> ''venv'' \<notin> set (parts file_path) \<and>
     ''.specstory'' \<notin> set (parts file_path)"
  unfolding should_process_the_file_def excluded_dirs_def str_in_iff by simp

lemma index_loop_append:
  "index_loop env (before @ rest) s = index_loop env rest (index_loop env before s)"
  by (induction before arbitrary: s) simp_all

lemma index_file_trace:
  "\<exists>evs. trace (index_file env fp s) = trace s @ evs \<and>
         (\<forall>q. OpenRead q \<in> set evs \<longleftrightarrow> q = fp \<and> should_process_the_file fp)"
  by (auto simp: index_file_def call_def print_def get_azure_embedding_def
           split: prod.splits sum.splits option.splits)

lemma index_loop_trace:
  "OpenRead q \<in> set (trace (index_loop env glob s)) \<longleftrightarrow>
     OpenRead q \<in> set (trace s) \<or> (q \<in> set glob \<and> should_process_the_file q)"
proof (induction glob arbitrary: s)
  case Nil
  then show ?case by simp
next
  case (Cons fp rest)
  obtain evs where evs: "trace (index_file env fp s) = trace s @ evs"
    "\<And>q. OpenRead q \<in> set evs \<longleftrightarrow> q = fp \<and> should_process_the_file fp"
    using index_file_trace[of env fp s] by blast
  show ?case
    using Cons.IH[of "index_file env fp s"] evs by auto
qed

text \<open>
  C10. A path is eligible for indexing (\<open>should_process_the_file\<close>) exactly when it is a
  regular file, the string \<open>.py\<close> occurs in its suffix, and none of \<open>scripts\<close>,
  \<open>venv\<close> and \<open>.specstory\<close> is one of its parts; and the loop opens a path exactly
  when the walk yields it and it is eligible. A suffix \<open>.pyc\<close> qualifies; \<open>.txt\<close>
  and \<open>.md\<close> do not.
\<close>

theorem eligible_for_indexing:
  "(should_process_the_file file_path \<longleftrightarrow>
      is_file file_path \<and> (\<exists>pre post. suffix file_path = pre @ ''.py'' @ post) \<and>
      ''scripts'' \<notin> set (parts file_path) \<and> ''venv'' \<notin> set (parts file_path) \<and>
      ''.specstory'' \<notin> set (parts file_path))
   \<and> (OpenRead file_path \<in> set (trace (index_loop env glob \<lparr>world = w, trace = []\<rparr>)) \<longleftrightarrow>
      file_path \<in> set glob \<and>
      is_file file_path \<and> (\<exists>pre post. suffix file_path = pre @ ''.py'' @ post) \<and>
      ''scripts'' \<notin> set (parts file_path) \<and> ''venv'' \<notin> set (parts file_path) \<and>
      ''.specstory'' \<notin> set (parts file_path))"
  using index_loop_trace[of file_path env glob "\<lparr>world = w, trace = []\<rparr>"]
        should_process_iff[of file_path]
  by simp

theorem eligible_for_indexing_witness:
  "should_process_the_file (demo_path ''models.pyc'' ''.pyc'')
   \<and> should_process_the_file (demo_path ''models.py'' ''.py'')
   \<and> \<not> should_process_the_file (demo_path ''notes.txt'' ''.txt'')
   \<and> \<not> should_process_the_file (demo_path ''README.md'' ''.md'')
   \<and> \<not> should_process_the_file
         \<lparr>parts = [''app'', ''venv'', ''x.py''], suffix = ''.py'', is_file = True,
          path_str = ''app/venv/x.py'', relative_str = ''venv/x.py''\<rparr>
   \<and> \<not> should_process_the_file
         \<lparr>parts = [''app'', ''scripts'', ''x.py''], suffix = ''.py'', is_file = True,
          path_str = ''app/scripts/x.py'', relative_str = ''scripts/x.py''\<rparr>
   \<and> \<not> should_process_the_file
         \<lparr>parts = [''app'', ''pkg.py''], suffix = ''.py'', is_file = False,
          path_str = ''app/pkg.py'', relative_str = ''pkg.py''\<rparr>"
  using eligible_for_indexing [of "demo_path ''models.pyc'' ''.pyc''"]
  by (simp add: should_process_the_file_def excluded_dirs_def demo_path_def)

text \<open>
  C5. When the text read from a file is empty after \<open>strip\<close>, the iteration for that
  file ends right after the read: an eligible file adds the event of its read and no
  other (no request to the embedding endpoint, no insert), and the loop goes on with
  the next path. A path that is not eligible adds no event at all.
\<close>

theorem blank_file_is_skipped:
  assumes "read_file env file_path (world s) = (Inr content, w')"
      and "strip content = []"
  shows "index_file env file_path s =
           (if should_process_the_file file_path
            then \<lparr>world = w', trace = trace s @ [OpenRead file_path]\<rparr> else s)
       \<and> index_loop env (file_path # rest) s =
           index_loop env rest
             (if should_process_the_file file_path
              then \<lparr>world = w', trace = trace s @ [OpenRead file_path]\<rparr> else s)"
  using assms by (simp add: index_file_def call_def)

theorem blank_file_is_skipped_witness:
  "read_file memory_services (demo_path ''__init__.py'' ''.py'')
       (world \<lparr>world = demo_world True None, trace = []\<rparr>)
     = (Inr ('' '' @ nl), demo_world True None)
   \<and> strip ('' '' @ nl) = []
   \<and> index_file memory_services (demo_path ''__init__.py'' ''.py'')
       \<lparr>world = demo_world True None, trace = []\<rparr>
     = \<lparr>world = demo_world True None,
        trace = [OpenRead (demo_path ''__init__.py'' ''.py'')]\<rparr>
   \<and> index_loop memory_services
       [demo_path ''__init__.py'' ''.py'', demo_path ''b.py'' ''.py'']
       \<lparr>world = demo_world True None, trace = []\<rparr>
     = \<lparr>world = (demo_world True None)
                   \<lparr>mw_collection :=
                      [([(''file_path'', ''b.py''), (''content'', ''y = 2'')], [1, 2])]\<rparr>,
        trace = [OpenRead (demo_path ''__init__.py'' ''.py''),
                 OpenRead (demo_path ''b.py'' ''.py''), EmbeddingPost ''y = 2'',
                 DataInsert [(''file_path'', ''b.py''), (''content'', ''y = 2'')] [1, 2],
                 Print ''Processed: b.py'']\<rparr>"
  using blank_file_is_skipped
    [of memory_services "demo_path ''__init__.py'' ''.py''"
        "\<lparr>world = demo_world True None, trace = []\<rparr>" "'' '' @ nl" "demo_world True None"
        "[demo_path ''b.py'' ''.py'']"]
  by (simp add: memory_services_def demo_world_def demo_path_def strip_def py_isspace_def
        should_process_the_file_def excluded_dirs_def index_file_def
        call_def print_def get_azure_embedding_def)

text \<open>
  C3. A failure inside one iteration ends that iteration with a printed line and a
  state: when the read fails, or the insert raises, the exception is printed by the
  loop; when the embedding request fails, the failure is printed by
  \<open>get_azure_embedding\<close> and the \<open>Failed to get embedding\<close> exception by the loop (as
  it is for an empty embedding). An iteration without failure ends with the insert and
  the \<open>Processed\<close> line, and a path that is not eligible changes nothing. The loop
  goes through the paths in order, each iteration starting from the state the one
  before left, whatever that iteration's outcome, so every eligible path after a failed
  one is opened. \<open>index_code_base\<close> is the collection lookup followed by this loop over
  all the paths of the walk: when the lookup succeeds it returns normally, with the
  state the loop ends in.
\<close>

theorem file_failure_does_not_stop_indexing:
  "(should_process_the_file file_path \<and>
    read_file env file_path (world s) = (Inr content, w1) \<and> strip content \<noteq> [] \<and>
    embedding_post env content w1 = (Inl e, w2) \<longrightarrow>
      index_file env file_path s =
        \<lparr>world = w2,
         trace = trace s @
           [OpenRead file_path, EmbeddingPost content,
            Print (''Error getting embeddings: '' @ exn_str e),
            Print (''Error processing '' @ path_str file_path @
                   '': Failed to get embedding'')]\<rparr>)
   \<and> (should_process_the_file file_path \<and>
    read_file env file_path (world s) = (Inr content, w1) \<and> strip content \<noteq> [] \<and>
    embedding_post env content w1 = (Inr v, w2) \<and> v \<noteq> [] \<and>
    data_insert env [(''file_path'', relative_str file_path), (''content'', content)] v w2
      = (Inl e, w3) \<longrightarrow>
      index_file env file_path s =
        \<lparr>world = w3,
         trace = trace s @
           [OpenRead file_path, EmbeddingPost content,
            DataInsert [(''file_path'', relative_str file_path), (''content'', content)] v,
            Print (''Error processing '' @ path_str file_path @ '': '' @ exn_str e)]\<rparr>)
   \<and> index_loop env (before @ file_path # rest) s =
       index_loop env rest (index_file env file_path (index_loop env before s))
   \<and> (later \<in> set rest \<and> should_process_the_file later \<longrightarrow>
       OpenRead later \<in> set (trace (index_loop env (before @ file_path # rest) s)))
   \<and> fst (index_code_base env glob s) =
       (case fst (collections_get env ''CodeFile'' (world s)) of
          Inl e \<Rightarrow> Inl e | Inr u \<Rightarrow> Inr ())
   \<and> index_loop env [] s = s
   \<and> index_code_base env glob s =
       (case collections_get env ''CodeFile'' (world s) of
          (Inl e, w0) \<Rightarrow>
            (Inl e, \<lparr>world = w0, trace = trace s @ [CollectionsGet ''CodeFile'']\<rparr>)
        | (Inr u, w0) \<Rightarrow>
            (Inr (),
             index_loop env glob
               \<lparr>world = w0, trace = trace s @ [CollectionsGet ''CodeFile'']\<rparr>))
   \<and> (collections_get env ''CodeFile'' (world s) = (Inr (), w0) \<longrightarrow>
       index_code_base env (before @ file_path # rest) s =
         (Inr (),
          index_loop env rest
            (index_file env file_path
               (index_loop env before
                  \<lparr>world = w0, trace = trace s @ [CollectionsGet ''CodeFile'']\<rparr>))))
   \<and> (collections_get env ''CodeFile'' (world s) = (Inr (), w0) \<and>
       later \<in> set rest \<and> should_process_the_file later \<longrightarrow>
       OpenRead later
         \<in> set (trace (snd (index_code_base env (before @ file_path # rest) s))))
   \<and> (should_process_the_file file_path \<and>
    read_file env file_path (world s) = (Inl e, w1) \<longrightarrow>
      index_file env file_path s =
        \<lparr>world = w1,
         trace = trace s @
           [OpenRead file_path,
            Print (''Error processing '' @ path_str file_path @ '': '' @ exn_str e)]\<rparr>)
   \<and> (should_process_the_file file_path \<and>
    read_file env file_path (world s) = (Inr content, w1) \<and> strip content \<noteq> [] \<and>
    embedding_post env content w1 = (Inr [], w2) \<longrightarrow>
      index_file env file_path s =
        \<lparr>world = w2,
         trace = trace s @
           [OpenRead file_path, EmbeddingPost content,
            Print (''Error processing '' @ path_str file_path @
                   '': Failed to get embedding'')]\<rparr>)
   \<and> (should_process_the_file file_path \<and>
    read_file env file_path (world s) = (Inr content, w1) \<and> strip content \<noteq> [] \<and>
    embedding_post env content w1 = (Inr v, w2) \<and> v \<noteq> [] \<and>
    data_insert env [(''file_path'', relative_str file_path), (''content'', content)] v w2
      = (Inr (), w3) \<longrightarrow>
      index_file env file_path s =
        \<lparr>world = w3,
         trace = trace s @
           [OpenRead file_path, EmbeddingPost content,
            DataInsert [(''file_path'', relative_str file_path), (''content'', content)] v,
            Print (''Processed: '' @ relative_str file_path)]\<rparr>)
   \<and> (\<not> should_process_the_file file_path \<longrightarrow> index_file env file_path s = s)"
  (is "?a \<and> ?b \<and> ?c \<and> ?d \<and> ?e \<and> ?f \<and> ?g \<and> ?h \<and> ?i \<and> ?j \<and> ?k \<and> ?l \<and> ?m")
proof -
  have a: ?a
    by (simp add: index_file_def call_def print_def get_azure_embedding_def)
  have b: ?b
    by (simp add: index_file_def call_def print_def get_azure_embedding_def)
  have c: ?c
    by (simp add: index_loop_append)
  have d: ?d
    by (simp add: index_loop_trace)
  have e: ?e
    by (simp add: index_code_base_def call_def split: prod.splits sum.splits)
  have f: ?f
    by simp
  have g: ?g
    by (simp add: index_code_base_def call_def split: prod.splits sum.splits)
  have h: ?h
    by (simp add: index_code_base_def call_def index_loop_append)
  have i: ?i
    by (simp add: index_code_base_def call_def index_loop_trace)
  have j: ?j
    by (simp add: index_file_def call_def print_def)
  have k: ?k
    by (simp add: index_file_def call_def print_def get_azure_embedding_def)
  have l: ?l
    by (simp add: index_file_def call_def print_def get_azure_embedding_def)
  have m: ?m
    by (simp add: index_file_def)
  from a b c d e f g h i j k l m show ?thesis by blast
qed

theorem file_failure_does_not_stop_indexing_witness:
  "should_process_the_file (demo_path ''a.py'' ''.py'')
   \<and> read_file memory_services (demo_path ''a.py'' ''.py'')
         (world \<lparr>world = demo_world False None, trace = []\<rparr>)
       = (Inr ''x = 1'', demo_world False None)
   \<and> strip ''x = 1'' \<noteq> []
   \<and> embedding_post memory_services ''x = 1'' (demo_world False None)
       = (Inl (Exception ''503 Server Error''), demo_world False None)
   \<and> index_file memory_services (demo_path ''a.py'' ''.py'')
         \<lparr>world = demo_world False None, trace = []\<rparr>
       = \<lparr>world = demo_world False None,
          trace = [OpenRead (demo_path ''a.py'' ''.py''), EmbeddingPost ''x = 1'',
                   Print ''Error getting embeddings: 503 Server Error'',
                   Print ''Error processing app/a.py: Failed to get embedding'']\<rparr>
   \<and> should_process_the_file (demo_path ''b.py'' ''.py'')
   \<and> read_file memory_services (demo_path ''b.py'' ''.py'')
         (world \<lparr>world = demo_world False None, trace = []\<rparr>)
       = (Inr ''y = 2'', demo_world False None)
   \<and> strip ''y = 2'' \<noteq> []
   \<and> embedding_post memory_services ''y = 2'' (demo_world False None)
       = (Inr [1, 2], demo_world False None)
   \<and> data_insert memory_services [(''file_path'', ''b.py''), (''content'', ''y = 2'')]
         [1, 2] (demo_world False None)
       = (Inl (Exception ''Connection refused''), demo_world False None)
   \<and> index_file memory_services (demo_path ''b.py'' ''.py'')
         \<lparr>world = demo_world False None, trace = []\<rparr>
       = \<lparr>world = demo_world False None,
          trace = [OpenRead (demo_path ''b.py'' ''.py''), EmbeddingPost ''y = 2'',
                   DataInsert [(''file_path'', ''b.py''), (''content'', ''y = 2'')] [1, 2],
                   Print ''Error processing app/b.py: Connection refused'']\<rparr>
   \<and> index_code_base memory_services
         [demo_path ''a.py'' ''.py'', demo_path ''b.py'' ''.py'']
         \<lparr>world = demo_world True None, trace = []\<rparr>
       = (Inr (),
          \<lparr>world = (demo_world True None)
                     \<lparr>mw_collection :=
                        [([(''file_path'', ''b.py''), (''content'', ''y = 2'')], [1, 2])]\<rparr>,
           trace = [CollectionsGet ''CodeFile'',
                    OpenRead (demo_path ''a.py'' ''.py''), EmbeddingPost ''x = 1'',
                    Print ''Error getting embeddings: 503 Server Error'',
                    Print ''Error processing app/a.py: Failed to get embedding'',
                    OpenRead (demo_path ''b.py'' ''.py''), EmbeddingPost ''y = 2'',
                    DataInsert [(''file_path'', ''b.py''), (''content'', ''y = 2'')] [1, 2],
                    Print ''Processed: b.py'']\<rparr>)
   \<and> collections_get memory_services ''CodeFile''
         (world \<lparr>world = demo_world False None, trace = []\<rparr>)
       = (Inr (), demo_world False None)
   \<and> index_code_base memory_services
         [demo_path ''b.py'' ''.py'', demo_path ''a.py'' ''.py'',
          demo_path ''notes.txt'' ''.txt'', demo_path ''b.py'' ''.py'']
         \<lparr>world = demo_world False None, trace = []\<rparr>
       = (Inr (),
          \<lparr>world = demo_world False None,
           trace = [CollectionsGet ''CodeFile'',
                    OpenRead (demo_path ''b.py'' ''.py''), EmbeddingPost ''y = 2'',
                    DataInsert [(''file_path'', ''b.py''), (''content'', ''y = 2'')] [1, 2],
                    Print ''Error processing app/b.py: Connection refused'',
                    OpenRead (demo_path ''a.py'' ''.py''), EmbeddingPost ''x = 1'',
                    Print ''Error getting embeddings: 503 Server Error'',
                    Print ''Error processing app/a.py: Failed to get embedding'',
                    OpenRead (demo_path ''b.py'' ''.py''), EmbeddingPost ''y = 2'',
                    DataInsert [(''file_path'', ''b.py''), (''content'', ''y = 2'')] [1, 2],
                    Print ''Error processing app/b.py: Connection refused'']\<rparr>)
   \<and> OpenRead (demo_path ''a.py'' ''.py'')
       \<in> set (trace (snd (index_code_base memory_services
                 [demo_path ''b.py'' ''.py'', demo_path ''a.py'' ''.py'']
                 \<lparr>world = demo_world False None, trace = []\<rparr>)))
   \<and> read_file memory_services (demo_path ''missing.py'' ''.py'')
         (world \<lparr>world = demo_world True None, trace = []\<rparr>)
       = (Inl (Exception ''No such file or directory''), demo_world True None)
   \<and> index_loop memory_services
         [demo_path ''missing.py'' ''.py'', demo_path ''b.py'' ''.py'']
         \<lparr>world = demo_world True None, trace = []\<rparr>
       = \<lparr>world = (demo_world True None)
                   \<lparr>mw_collection :=
                      [([(''file_path'', ''b.py''), (''content'', ''y = 2'')], [1, 2])]\<rparr>,
          trace = [OpenRead (demo_path ''missing.py'' ''.py''),
                   Print ''Error processing app/missing.py: No such file or directory'',
                   OpenRead (demo_path ''b.py'' ''.py''), EmbeddingPost ''y = 2'',
                   DataInsert [(''file_path'', ''b.py''), (''content'', ''y = 2'')] [1, 2],
                   Print ''Processed: b.py'']\<rparr>"
  using file_failure_does_not_stop_indexing
    [where env = memory_services and file_path = "demo_path ''a.py'' ''.py''"
       and s = "\<lparr>world = demo_world False None, trace = []\<rparr>" and content = "''x = 1''"
       and ?w1.0 = "demo_world False None" and ?w2.0 = "demo_world False None"
       and e = "Exception ''503 Server Error''" and before = "[]" and rest = "[]"
       and ?w0.0 = "demo_world False None" and glob = "[]"]
    file_failure_does_not_stop_indexing
    [where env = memory_services and file_path = "demo_path ''b.py'' ''.py''"
       and s = "\<lparr>world = demo_world False None, trace = []\<rparr>" and content = "''y = 2''"
       and ?w0.0 = "demo_world False None"
       and ?w1.0 = "demo_world False None" and ?w2.0 = "demo_world False None" and v = "[1, 2]"
       and ?w3.0 = "demo_world False None"
       and e = "Exception ''Connection refused''" and before = "[]"
       and rest = "[demo_path ''a.py'' ''.py'']" and later = "demo_path ''a.py'' ''.py''"
       and glob = "[demo_path ''b.py'' ''.py'', demo_path ''a.py'' ''.py'']"]
    file_failure_does_not_stop_indexing
    [where env = memory_services and file_path = "demo_path ''missing.py'' ''.py''"
       and s = "\<lparr>world = demo_world True None, trace = []\<rparr>"
       and ?w0.0 = "demo_world True None" and ?w1.0 = "demo_world True None"
       and e = "Exception ''No such file or directory''" and before = "[]"
       and rest = "[demo_path ''b.py'' ''.py'']" and later = "demo_path ''b.py'' ''.py''"
       and glob = "[]"]
  by (simp add: memory_services_def demo_world_def demo_path_def strip_def py_isspace_def
        should_process_the_file_def excluded_dirs_def index_code_base_def index_file_def
        call_def print_def get_azure_embedding_def)

subsection \<open>The search\<close>

lemma append_matches_ok:
  assumes "\<forall>obj \<in> set objs. map_of (properties obj) ''file_path'' \<noteq> None \<and>
                            map_of (properties obj) ''content'' \<noteq> None"
  shows "\<exists>ms. append_matches objs acc = Inr (acc @ ms) \<and> list_all2 is_match_of ms objs"
  using assms
proof (induction objs arbitrary: acc)
  case Nil
  then show ?case by simp
next
  case (Cons obj objs)
  from Cons.prems obtain fp c where
    fp: "map_of (properties obj) ''file_path'' = Some fp" and
    c: "map_of (properties obj) ''content'' = Some c"
    by auto
  from Cons.prems have rest: "\<forall>obj \<in> set objs. map_of (properties obj) ''file_path'' \<noteq> None \<and>
                            map_of (properties obj) ''content'' \<noteq> None"
    by simp
  from Cons.IH[OF rest, of "acc @ [[(''file_path'', fp), (''content'', c)]]"]
  obtain ms where ms:
    "append_matches objs (acc @ [[(''file_path'', fp), (''content'', c)]])
       = Inr ((acc @ [[(''file_path'', fp), (''content'', c)]]) @ ms)"
    "list_all2 is_match_of ms objs"
    by blast
  have "append_matches (obj # objs) acc = Inr (acc @ ([(''file_path'', fp), (''content'', c)] # ms))"
    using fp c ms(1) by (simp add: getitem_def)
  moreover have "list_all2 is_match_of ([(''file_path'', fp), (''content'', c)] # ms) (obj # objs)"
    using fp c ms(2) by (simp add: is_match_of_def)
  ultimately show ?case by blast
qed

lemma search_code_base_default:
  "search_code_base env query None s = search_code_base env query (Some 5) s"
  by (simp add: search_code_base_def)

lemma search_code_base_ok:
  assumes "embedding_post env query (world s) = (Inr v, w1)"
      and "connect env w1 = (Inr (), w2)"
      and "collections_get env ''CodeFile'' w2 = (Inr (), w3)"
      and "near_vector env v (case limit_arg of None \<Rightarrow> 5 | Some l \<Rightarrow> l) w3 = (Inr objs, w4)"
      and "client_close env w4 = (Inr (), w5)"
  shows "search_code_base env query limit_arg s =
           (append_matches objs [],
            \<lparr>world = w5,
             trace = trace s @ [EmbeddingPost query, Connect, CollectionsGet ''CodeFile'',
                                NearVector v (case limit_arg of None \<Rightarrow> 5 | Some l \<Rightarrow> l),
                                ClientClose]\<rparr>)"
  using assms
  by (simp add: search_code_base_def get_vector_embedding_def create_weaviate_client_def
        search_try_def call_def Let_def)


lemma search_code_base_embedding_fails:
  assumes "embedding_post env query (world s) = (Inl e, w1)"
  shows "search_code_base env query limit_arg s =
           (Inl e,
            \<lparr>world = w1,
             trace = trace s @ [EmbeddingPost query,
                                Print (''Error getting embeddings: '' @ exn_str e)]\<rparr>)"
  using assms
  by (simp add: search_code_base_def get_vector_embedding_def call_def print_def Let_def)

lemma search_code_base_query_fails:
  assumes "embedding_post env query (world s) = (Inr v, w1)"
      and "connect env w1 = (Inr (), w2)"
      and "collections_get env ''CodeFile'' w2 = (Inr (), w3)"
      and "near_vector env v (case limit_arg of None \<Rightarrow> 5 | Some l \<Rightarrow> l) w3 = (Inl e, w4)"
      and "client_close env w4 = (r, w5)"
  shows "search_code_base env query limit_arg s =
           (Inl (case r of Inl e' \<Rightarrow> e' | Inr u \<Rightarrow> e),
            \<lparr>world = w5,
             trace = trace s @ [EmbeddingPost query, Connect, CollectionsGet ''CodeFile'',
                                NearVector v (case limit_arg of None \<Rightarrow> 5 | Some l \<Rightarrow> l),
                                ClientClose]\<rparr>)"
  using assms
  by (cases r) (simp_all add: search_code_base_def get_vector_embedding_def
        create_weaviate_client_def search_try_def call_def Let_def)

text \<open>
  C6. A call without a limit is a call with the limit 5. When the embedding request and
  the operations on the vector store succeed, the query is made with the given limit,
  and the function returns one match for each object that the query returned, in the
  same order, each match being the dictionary of the object's \<open>file_path\<close> and
  \<open>content\<close>. The store's query is a service outside the repository; its result is taken
  to be the first \<open>limit\<close> objects of a ranking of the stored objects, each of which has
  the two properties. Then there are at most \<open>limit\<close> matches, and when fewer than
  \<open>limit\<close> objects are stored, there is one match for every stored object, no more, and
  no exception.
\<close>

theorem search_returns_at_most_limit:
  assumes "embedding_post env query (world s) = (Inr v, w1)"
      and "connect env w1 = (Inr (), w2)"
      and "collections_get env ''CodeFile'' w2 = (Inr (), w3)"
      and "near_vector env v limit w3 = (Inr objs, w4)"
      and "client_close env w4 = (Inr (), w5)"
      and "limit = (case limit_arg of None \<Rightarrow> 5 | Some l \<Rightarrow> l)"
      and "0 \<le> limit"
      and "objs = take (nat limit) ranked"
      and "mset ranked = mset collection"
      and "\<forall>obj \<in> set collection. map_of (properties obj) ''file_path'' \<noteq> None \<and>
                                  map_of (properties obj) ''content'' \<noteq> None"
  shows "search_code_base env query None s = search_code_base env query (Some 5) s
       \<and> (\<exists>matches.
            search_code_base env query limit_arg s =
              (Inr matches,
               \<lparr>world = w5,
                trace = trace s @ [EmbeddingPost query, Connect, CollectionsGet ''CodeFile'',
                                   NearVector v limit, ClientClose]\<rparr>)
          \<and> list_all2 is_match_of matches objs
          \<and> int (length matches) \<le> limit
          \<and> (int (length collection) < limit \<longrightarrow>
               length matches = length collection \<and> mset objs = mset collection))"
proof -
  have set_eq: "set ranked = set collection"
    using assms(9) by (rule mset_eq_setD)
  have len_eq: "length ranked = length collection"
    using assms(9) by (rule mset_eq_length)
  have "set objs \<subseteq> set collection"
    using assms(8) set_eq set_take_subset by fastforce
  with assms(10) have keys: "\<forall>obj \<in> set objs. map_of (properties obj) ''file_path'' \<noteq> None \<and>
                                  map_of (properties obj) ''content'' \<noteq> None"
    by blast
  from append_matches_ok[OF keys, of "[]"] obtain matches where
    m: "append_matches objs [] = Inr matches" "list_all2 is_match_of matches objs"
    by auto
  have run: "search_code_base env query limit_arg s =
              (Inr matches,
               \<lparr>world = w5,
                trace = trace s @ [EmbeddingPost query, Connect, CollectionsGet ''CodeFile'',
                                   NearVector v limit, ClientClose]\<rparr>)"
    using search_code_base_ok[of env query s v w1 w2 w3 limit_arg objs w4 w5] assms(1-6) m(1)
    by simp
  have len: "length matches = length objs"
    using m(2) by (rule list_all2_lengthD)
  have le: "int (length matches) \<le> limit"
    using len assms(7,8) by simp
  have all: "int (length collection) < limit \<longrightarrow>
               length matches = length collection \<and> mset objs = mset collection"
  proof
    assume "int (length collection) < limit"
    then have "objs = ranked" using assms(8) len_eq by simp
    then show "length matches = length collection \<and> mset objs = mset collection"
      using len len_eq assms(9) by simp
  qed
  show ?thesis
    using run m(2) le all search_code_base_default by blast
qed

theorem search_returns_at_most_limit_witness:
  "embedding_post memory_services ''add y''
       (world \<lparr>world = demo_indexed True None, trace = []\<rparr>)
     = (Inr [1, 2], demo_indexed True None)
   \<and> near_vector memory_services [1, 2] 5 (demo_indexed True None)
     = (Inr [\<lparr>properties = [(''file_path'', ''b.py''), (''content'', ''y = 2'')]\<rparr>,
             \<lparr>properties = [(''file_path'', ''c.py''), (''content'', ''z = 3'')]\<rparr>],
        demo_indexed True None)
   \<and> search_code_base memory_services ''add y'' None
       \<lparr>world = demo_indexed True None, trace = []\<rparr>
     = (Inr [[(''file_path'', ''b.py''), (''content'', ''y = 2'')],
             [(''file_path'', ''c.py''), (''content'', ''z = 3'')]],
        \<lparr>world = demo_indexed True None,
         trace = [EmbeddingPost ''add y'', Connect, CollectionsGet ''CodeFile'',
                  NearVector [1, 2] 5, ClientClose]\<rparr>)
   \<and> fst (search_code_base memory_services ''add y'' (Some 1)
       \<lparr>world = demo_indexed True None, trace = []\<rparr>)
     = Inr [[(''file_path'', ''b.py''), (''content'', ''y = 2'')]]"
  using search_returns_at_most_limit
    [where env = memory_services and query = "''add y''" and limit_arg = None and limit = 5
       and s = "\<lparr>world = demo_indexed True None, trace = []\<rparr>"
       and v = "[1, 2]"
       and ?w1.0 = "demo_indexed True None" and ?w2.0 = "demo_indexed True None"
       and ?w3.0 = "demo_indexed True None" and ?w4.0 = "demo_indexed True None"
       and ?w5.0 = "demo_indexed True None"
       and objs = "[\<lparr>properties = [(''file_path'', ''b.py''), (''content'', ''y = 2'')]\<rparr>,
             \<lparr>properties = [(''file_path'', ''c.py''), (''content'', ''z = 3'')]\<rparr>]"
       and ranked = "[\<lparr>properties = [(''file_path'', ''b.py''), (''content'', ''y = 2'')]\<rparr>,
             \<lparr>properties = [(''file_path'', ''c.py''), (''content'', ''z = 3'')]\<rparr>]"
       and collection = "[\<lparr>properties = [(''file_path'', ''b.py''), (''content'', ''y = 2'')]\<rparr>,
             \<lparr>properties = [(''file_path'', ''c.py''), (''content'', ''z = 3'')]\<rparr>]"]
  by (simp add: memory_services_def demo_world_def demo_indexed_def search_code_base_def
        get_vector_embedding_def create_weaviate_client_def search_try_def call_def
        getitem_def)

subsection \<open>The task plan\<close>

text \<open>
  C4. A run of \<open>generate_task_plan\<close> in which the embedding request for the query, the
  vector search, or the chat request fails: the exception reaches the \<^verbatim>\<open>except\<close>
  clause of \<open>generate_task_plan\<close>, which prints it, and the run ends there. The events
  of the run are the ones listed: no directory is made, no file is written, and the
  lines of the task plan are not printed. (When the vector search fails, the client is
  still closed; an exception of the close takes the place of the search's.)
\<close>

theorem query_side_failure_aborts_run:
  "(read_input env ''Enter your task description: '' (world s) = (Inr user_query, w0) \<and>
    embedding_post env user_query w0 = (Inl e, w1) \<longrightarrow>
      generate_task_plan env s =
        (Inr (),
         \<lparr>world = w1,
          trace = trace s @
            [Input ''Enter your task description: '',
             Print (nl @ ''Searching for relevant code files...''),
             EmbeddingPost user_query,
             Print (''Error getting embeddings: '' @ exn_str e),
             Print (''Error during task planning: '' @ exn_str e)]\<rparr>))
   \<and> (read_input env ''Enter your task description: '' (world s) = (Inr user_query, w0) \<and>
    embedding_post env user_query w0 = (Inr v, w1) \<and>
    connect env w1 = (Inr (), w2) \<and>
    collections_get env ''CodeFile'' w2 = (Inr (), w3) \<and>
    near_vector env v 5 w3 = (Inl e, w4) \<and>
    client_close env w4 = (r, w5) \<longrightarrow>
      generate_task_plan env s =
        (Inr (),
         \<lparr>world = w5,
          trace = trace s @
            [Input ''Enter your task description: '',
             Print (nl @ ''Searching for relevant code files...''),
             EmbeddingPost user_query, Connect, CollectionsGet ''CodeFile'',
             NearVector v 5, ClientClose,
             Print (''Error during task planning: '' @
                    exn_str (case r of Inl e' \<Rightarrow> e' | Inr u \<Rightarrow> e))]\<rparr>))
   \<and> (read_input env ''Enter your task description: '' (world s) = (Inr user_query, w0) \<and>
    embedding_post env user_query w0 = (Inr v, w1) \<and>
    connect env w1 = (Inr (), w2) \<and>
    collections_get env ''CodeFile'' w2 = (Inr (), w3) \<and>
    near_vector env v 5 w3 = (Inr objs, w4) \<and>
    client_close env w4 = (Inr (), w5) \<and>
    append_matches objs [] = Inr search_results \<and>
    format_code_context search_results = Inr code_context \<and>
    chat_post env
      (chat_request (SYSTEM_PROMPT_before env @ code_context @ SYSTEM_PROMPT_after env)
         user_query) w5 = (Inl e, w6) \<longrightarrow>
      generate_task_plan env s =
        (Inr (),
         \<lparr>world = w6,
          trace = trace s @
            [Input ''Enter your task description: '',
             Print (nl @ ''Searching for relevant code files...''),
             EmbeddingPost user_query, Connect, CollectionsGet ''CodeFile'',
             NearVector v 5, ClientClose,
             Print (nl @ ''Generating task plan...''),
             ChatPost
               (chat_request
                  (SYSTEM_PROMPT_before env @ code_context @ SYSTEM_PROMPT_after env)
                  user_query),
             Print (''Error getting chat completion: '' @ exn_str e),
             Print (''Error during task planning: '' @ exn_str e)]\<rparr>))"
  (is "(?ha \<longrightarrow> ?ca) \<and> (?hb \<longrightarrow> ?cb) \<and> (?hc \<longrightarrow> ?cc)")
proof -
  let ?s0 = "print (nl @ ''Searching for relevant code files...'')
               \<lparr>world = w0, trace = trace s @ [Input ''Enter your task description: '']\<rparr>"
  have a: "?ha \<longrightarrow> ?ca"
  proof
    assume h: ?ha
    then have "embedding_post env user_query (world ?s0) = (Inl e, w1)"
      by (simp add: print_def)
    from search_code_base_embedding_fails[OF this, of None] h
    show ?ca
      by (simp add: generate_task_plan_def generate_task_plan_try_def call_def print_def)
  qed
  have b: "?hb \<longrightarrow> ?cb"
  proof
    assume h: ?hb
    then have "embedding_post env user_query (world ?s0) = (Inr v, w1)"
      and "near_vector env v (case None of None \<Rightarrow> 5 | Some l \<Rightarrow> l) w3 = (Inl e, w4)"
      by (simp_all add: print_def)
    from search_code_base_query_fails[OF this(1) _ _ this(2), of w2 r w5] h
    show ?cb
      by (simp add: generate_task_plan_def generate_task_plan_try_def call_def print_def)
  qed
  have c: "?hc \<longrightarrow> ?cc"
  proof
    assume h: ?hc
    then have "embedding_post env user_query (world ?s0) = (Inr v, w1)"
      and "near_vector env v (case None of None \<Rightarrow> 5 | Some l \<Rightarrow> l) w3 = (Inr objs, w4)"
      by (simp_all add: print_def)
    from search_code_base_ok[OF this(1) _ _ this(2), of w2 w5] h
    show ?cc
      by (simp add: generate_task_plan_def generate_task_plan_try_def
            get_chat_completion_def call_def print_def Let_def)
  qed
  from a b c show ?thesis by blast
qed

theorem query_side_failure_aborts_run_witness:
  "read_input memory_services ''Enter your task description: ''
       (world \<lparr>world = (demo_indexed True None)\<lparr>mw_stdin := ''x = 1''\<rparr>, trace = []\<rparr>)
     = (Inr ''x = 1'', (demo_indexed True None)\<lparr>mw_stdin := ''x = 1''\<rparr>)
   \<and> embedding_post memory_services ''x = 1''
       ((demo_indexed True None)\<lparr>mw_stdin := ''x = 1''\<rparr>)
     = (Inl (Exception ''503 Server Error''),
        (demo_indexed True None)\<lparr>mw_stdin := ''x = 1''\<rparr>)
   \<and> generate_task_plan memory_services
       \<lparr>world = (demo_indexed True None)\<lparr>mw_stdin := ''x = 1''\<rparr>, trace = []\<rparr>
     = (Inr (),
        \<lparr>world = (demo_indexed True None)\<lparr>mw_stdin := ''x = 1''\<rparr>,
         trace = [Input ''Enter your task description: '',
                  Print (nl @ ''Searching for relevant code files...''),
                  EmbeddingPost ''x = 1'',
                  Print ''Error getting embeddings: 503 Server Error'',
                  Print ''Error during task planning: 503 Server Error'']\<rparr>)
   \<and> near_vector memory_services [1, 2] 5 (demo_indexed False None)
     = (Inl (Exception ''Connection refused''), demo_indexed False None)
   \<and> generate_task_plan memory_services \<lparr>world = demo_indexed False None, trace = []\<rparr>
     = (Inr (),
        \<lparr>world = demo_indexed False None,
         trace = [Input ''Enter your task description: '',
                  Print (nl @ ''Searching for relevant code files...''),
                  EmbeddingPost ''add y'', Connect, CollectionsGet ''CodeFile'',
                  NearVector [1, 2] 5, ClientClose,
                  Print ''Error during task planning: Connection refused'']\<rparr>)
   \<and> chat_post memory_services
       (chat_request
          (SYSTEM_PROMPT_before memory_services @
           (''File: b.py'' @ nl @ ''```python'' @ nl @ ''y = 2'' @ nl @ ''```'' @ nl @ nl @
            ''File: c.py'' @ nl @ ''```python'' @ nl @ ''z = 3'' @ nl @ ''```'' @ nl) @
           SYSTEM_PROMPT_after memory_services) ''add y'')
       (demo_indexed True None)
     = (Inl (Exception ''500 Server Error''), demo_indexed True None)
   \<and> generate_task_plan memory_services \<lparr>world = demo_indexed True None, trace = []\<rparr>
     = (Inr (),
        \<lparr>world = demo_indexed True None,
         trace = [Input ''Enter your task description: '',
                  Print (nl @ ''Searching for relevant code files...''),
                  EmbeddingPost ''add y'', Connect, CollectionsGet ''CodeFile'',
                  NearVector [1, 2] 5, ClientClose,
                  Print (nl @ ''Generating task plan...''),
                  ChatPost
                    (chat_request
                       (''Relevant Code snippets: '' @
                        ''File: b.py'' @ nl @ ''```python'' @ nl @ ''y = 2'' @ nl @ ''```'' @
                        nl @ nl @
                        ''File: c.py'' @ nl @ ''```python'' @ nl @ ''z = 3'' @ nl @ ''```'' @
                        nl @ '' Output Requirements'') ''add y''),
                  Print ''Error getting chat completion: 500 Server Error'',
                  Print ''Error during task planning: 500 Server Error'']\<rparr>)"
  using query_side_failure_aborts_run
    [where env = memory_services and user_query = "''x = 1''"
       and s = "\<lparr>world = (demo_indexed True None)\<lparr>mw_stdin := ''x = 1''\<rparr>, trace = []\<rparr>"
       and ?w0.0 = "(demo_indexed True None)\<lparr>mw_stdin := ''x = 1''\<rparr>"
       and ?w1.0 = "(demo_indexed True None)\<lparr>mw_stdin := ''x = 1''\<rparr>"
       and e = "Exception ''503 Server Error''"]
    query_side_failure_aborts_run
    [where env = memory_services and user_query = "''add y''"
       and s = "\<lparr>world = demo_indexed False None, trace = []\<rparr>"
       and ?w0.0 = "demo_indexed False None" and ?w1.0 = "demo_indexed False None"
       and ?w2.0 = "demo_indexed False None" and ?w3.0 = "demo_indexed False None"
       and ?w4.0 = "demo_indexed False None" and ?w5.0 = "demo_indexed False None"
       and v = "[1, 2]" and r = "Inr ()" and e = "Exception ''Connection refused''"]
    query_side_failure_aborts_run
    [where env = memory_services and user_query = "''add y''"
       and s = "\<lparr>world = demo_indexed True None, trace = []\<rparr>"
       and ?w0.0 = "demo_indexed True None" and ?w1.0 = "demo_indexed True None"
       and ?w2.0 = "demo_indexed True None" and ?w3.0 = "demo_indexed True None"
       and ?w4.0 = "demo_indexed True None" and ?w5.0 = "demo_indexed True None"
       and ?w6.0 = "demo_indexed True None"
       and v = "[1, 2]" and e = "Exception ''500 Server Error''"
       and objs = "[\<lparr>properties = [(''file_path'', ''b.py''), (''content'', ''y = 2'')]\<rparr>,
             \<lparr>properties = [(''file_path'', ''c.py''), (''content'', ''z = 3'')]\<rparr>]"
       and search_results = "[[(''file_path'', ''b.py''), (''content'', ''y = 2'')],
             [(''file_path'', ''c.py''), (''content'', ''z = 3'')]]"
       and code_context =
         "''File: b.py'' @ nl @ ''```python'' @ nl @ ''y = 2'' @ nl @ ''```'' @ nl @ nl @
          ''File: c.py'' @ nl @ ''```python'' @ nl @ ''z = 3'' @ nl @ ''```'' @ nl"]
  by (simp add: memory_services_def demo_world_def demo_indexed_def getitem_def
        format_code_context_def chat_request_def)

lemma search_code_base_events:
  "\<exists>evs. trace (snd (search_code_base env query limit_arg s)) = trace s @ evs \<and>
         (\<forall>d. ChatPost d \<notin> set evs)"
  by (auto simp: search_code_base_def get_vector_embedding_def create_weaviate_client_def
        search_try_def call_def print_def Let_def split: prod.splits sum.splits)

lemma get_chat_completion_events:
  "\<exists>rest. trace (snd (get_chat_completion env system_prompt user_query s)) =
            trace s @ ChatPost (chat_request system_prompt user_query) # rest \<and>
          (\<forall>d. ChatPost d \<notin> set rest) \<and>
          (\<forall>answer. fst (get_chat_completion env system_prompt user_query s) = Inr answer
             \<longrightarrow> rest = [] \<and>
                 fst (chat_post env (chat_request system_prompt user_query) (world s))
                   = Inr answer)"
  by (auto simp: get_chat_completion_def call_def print_def Let_def
           split: prod.splits sum.splits)

lemma save_query_and_response_events:
  "\<exists>evs. trace (snd (save_query_and_response env query task_plan code_context s)) =
            trace s @ evs \<and> (\<forall>d. ChatPost d \<notin> set evs)"
  by (auto simp: save_query_and_response_def call_def print_def datetime_now_def Let_def
           split: prod.splits sum.splits)

lemma save_query_and_response_ok:
  assumes "save_query_and_response env query task_plan code_context s = (Inr (), s')"
  shows "\<exists>t1 t2 wa wb.
           t1 = fst (clock env wa) \<and> t2 = fst (clock env wb) \<and>
           trace s' = trace s @
             [MakeDirs (QUERIES_DIR env),
              WriteFile (query_filename env t1)
                (query_content env t2 query task_plan code_context),
              Print (nl @ ''Query and response saved to: '' @ query_filename env t1)]"
  using assms
  by (auto simp: save_query_and_response_def call_def print_def datetime_now_def Let_def
           split: prod.splits sum.splits) (metis fst_conv)

lemma query_content_contains:
  "(\<exists>pre post. query_content env t query task_plan code_context = pre @ query @ post) \<and>
   (\<exists>pre post. query_content env t query task_plan code_context = pre @ task_plan @ post) \<and>
   (\<exists>pre post. query_content env t query task_plan code_context = pre @ code_context @ post)"
proof (intro conjI)
  show "\<exists>pre post. query_content env t query task_plan code_context = pre @ query @ post"
    unfolding query_content_def
    by (rule exI[of _ "''# Task Query - '' @ strftime env ''%Y-%m-%d %H:%M:%S'' t @ nl @ nl @
          ''## User Query'' @ nl"], rule exI[of _ "nl @ nl @
          ''## Task Plan'' @ nl @ task_plan @ nl @ nl @
          ''## Relevant Code Context'' @ nl @ code_context @ nl"]) simp
  show "\<exists>pre post. query_content env t query task_plan code_context = pre @ task_plan @ post"
    unfolding query_content_def
    by (rule exI[of _ "''# Task Query - '' @ strftime env ''%Y-%m-%d %H:%M:%S'' t @ nl @ nl @
          ''## User Query'' @ nl @ query @ nl @ nl @ ''## Task Plan'' @ nl"],
        rule exI[of _ "nl @ nl @ ''## Relevant Code Context'' @ nl @ code_context @ nl"]) simp
  show "\<exists>pre post. query_content env t query task_plan code_context = pre @ code_context @ post"
    unfolding query_content_def
    by (rule exI[of _ "''# Task Query - '' @ strftime env ''%Y-%m-%d %H:%M:%S'' t @ nl @ nl @
          ''## User Query'' @ nl @ query @ nl @ nl @ ''## Task Plan'' @ nl @ task_plan @
          nl @ nl @ ''## Relevant Code Context'' @ nl"],
        rule exI[of _ "nl"]) simp
qed

lemma generate_task_plan_try_ok:
  assumes "generate_task_plan_try env user_query s = (Inr (), s')"
  shows "\<exists>search_results s1 code_context task_plan s2 s3.
           search_code_base env user_query None
             (print (nl @ ''Searching for relevant code files...'') s)
             = (Inr search_results, s1) \<and>
           format_code_context search_results = Inr code_context \<and>
           get_chat_completion env
             (SYSTEM_PROMPT_before env @ code_context @ SYSTEM_PROMPT_after env) user_query
             (print (nl @ ''Generating task plan...'') s1) = (Inr task_plan, s2) \<and>
           save_query_and_response env user_query task_plan code_context s2 = (Inr (), s3) \<and>
           s' = print (replicate 80 CHR ''='')
                  (print task_plan
                     (print (replicate 80 CHR ''='') (print (nl @ ''Task Plan:'') s3)))"
  using assms
  by (auto simp: generate_task_plan_try_def Let_def split: prod.splits sum.splits)

text \<open>
  C8. The request that \<open>get_chat_completion\<close> sends has two messages, the first with the
  role \<open>system\<close> and the system prompt, the second with the role \<open>user\<close> and the query,
  and the sampling parameters 0, 1, 0 and 0.5; it is the only chat request of the call.
  In a run of the task plan, every chat request has this form, its system message being
  \<open>SYSTEM_PROMPT\<close> with the code context of the search results in the place of the
  replacement field, and its user message the query as read.
\<close>

theorem chat_request_is_fixed:
  "(\<exists>rest. trace (snd (get_chat_completion env system_prompt user_query s)) =
       trace s @
         ChatPost \<lparr>messages = [[(''role'', ''system''), (''content'', system_prompt)],
                               [(''role'', ''user''), (''content'', user_query)]],
                   temperature = 0, top_p = 1, frequency_penalty = 0,
                   presence_penalty = 0.5\<rparr> # rest \<and>
       (\<forall>d. ChatPost d \<notin> set rest))
   \<and> (\<forall>d. ChatPost d \<in> set (trace (snd (generate_task_plan_try env user_query
                                            \<lparr>world = w, trace = []\<rparr>))) \<longrightarrow>
       (\<exists>search_results code_context.
          fst (search_code_base env user_query None
                 (print (nl @ ''Searching for relevant code files...'')
                    \<lparr>world = w, trace = []\<rparr>)) = Inr search_results \<and>
          format_code_context search_results = Inr code_context \<and>
          d = \<lparr>messages =
                 [[(''role'', ''system''),
                   (''content'',
                    SYSTEM_PROMPT_before env @ code_context @ SYSTEM_PROMPT_after env)],
                  [(''role'', ''user''), (''content'', user_query)]],
               temperature = 0, top_p = 1, frequency_penalty = 0,
               presence_penalty = 0.5\<rparr>))"
  (is "?one \<and> ?run")
proof
  show ?one
    using get_chat_completion_events[of env system_prompt user_query s]
    by (auto simp add: chat_request_def)
next
  let ?s0 = "print (nl @ ''Searching for relevant code files...'') \<lparr>world = w, trace = []\<rparr>"
  obtain r1 s1 where search: "search_code_base env user_query None ?s0 = (r1, s1)"
    by (cases "search_code_base env user_query None ?s0")
  obtain evs where evs: "trace s1 = trace ?s0 @ evs" "\<forall>d. ChatPost d \<notin> set evs"
    using search_code_base_events[of env user_query None ?s0] search by auto
  have s0: "trace ?s0 = [Print (nl @ ''Searching for relevant code files...'')]"
    by (simp add: print_def)
  show ?run
  proof (intro allI impI)
    fix d
    assume d: "ChatPost d \<in> set (trace (snd (generate_task_plan_try env user_query
                                               \<lparr>world = w, trace = []\<rparr>)))"
    show "\<exists>search_results code_context.
          fst (search_code_base env user_query None ?s0) = Inr search_results \<and>
          format_code_context search_results = Inr code_context \<and>
          d = \<lparr>messages =
                 [[(''role'', ''system''),
                   (''content'',
                    SYSTEM_PROMPT_before env @ code_context @ SYSTEM_PROMPT_after env)],
                  [(''role'', ''user''), (''content'', user_query)]],
               temperature = 0, top_p = 1, frequency_penalty = 0,
               presence_penalty = 0.5\<rparr>"
    proof (cases r1)
      case (Inl e)
      with search d evs s0 show ?thesis
        by (simp add: generate_task_plan_try_def)
    next
      case (Inr search_results)
      note results = this
      show ?thesis
      proof (cases "format_code_context search_results")
        case (Inl e)
        with search results d evs s0 show ?thesis
          by (simp add: generate_task_plan_try_def)
      next
        case (Inr code_context)
        let ?sp = "SYSTEM_PROMPT_before env @ code_context @ SYSTEM_PROMPT_after env"
        let ?s1 = "print (nl @ ''Generating task plan...'') s1"
        obtain r2 s2 where chat: "get_chat_completion env ?sp user_query ?s1 = (r2, s2)"
          by (cases "get_chat_completion env ?sp user_query ?s1")
        obtain rest where rest:
          "trace s2 = trace ?s1 @ ChatPost (chat_request ?sp user_query) # rest"
          "\<forall>d. ChatPost d \<notin> set rest"
          using get_chat_completion_events[of env ?sp user_query ?s1] chat by auto
        have s1: "trace ?s1 = trace s1 @ [Print (nl @ ''Generating task plan...'')]"
          by (simp add: print_def)
        have d_eq: "d = chat_request ?sp user_query"
          if "ChatPost d \<in> set (trace s2)"
          using that rest evs s0 s1 by auto
        have "ChatPost d \<in> set (trace s2)"
        proof (cases r2)
          case (Inl e)
          with search results Inr chat d show ?thesis
            by (simp add: generate_task_plan_try_def)
        next
          case plan: (Inr task_plan)
          obtain r3 s3 where save:
            "save_query_and_response env user_query task_plan code_context s2 = (r3, s3)"
            by (cases "save_query_and_response env user_query task_plan code_context s2")
          obtain evs3 where evs3: "trace s3 = trace s2 @ evs3" "\<forall>d. ChatPost d \<notin> set evs3"
            using save_query_and_response_events[of env user_query task_plan code_context s2]
              save by auto
          from search results Inr chat plan save d evs3 show ?thesis
            by (cases r3) (auto simp: generate_task_plan_try_def print_def)
        qed
        then have "d = chat_request ?sp user_query" by (rule d_eq)
        with search results Inr show ?thesis
          by (simp add: chat_request_def)
      qed
    qed
  qed
qed

theorem chat_request_is_fixed_witness:
  "trace (snd (get_chat_completion memory_services ''You plan tasks.'' ''add y''
                 \<lparr>world = demo_indexed True (Some ''1. Add y''), trace = []\<rparr>))
     = [ChatPost \<lparr>messages = [[(''role'', ''system''), (''content'', ''You plan tasks.'')],
                              [(''role'', ''user''), (''content'', ''add y'')]],
                  temperature = 0, top_p = 1, frequency_penalty = 0,
                  presence_penalty = 0.5\<rparr>]
   \<and> ChatPost
        \<lparr>messages =
           [[(''role'', ''system''),
             (''content'',
              ''Relevant Code snippets: '' @
              ''File: b.py'' @ nl @ ''```python'' @ nl @ ''y = 2'' @ nl @ ''```'' @ nl @ nl @
              ''File: c.py'' @ nl @ ''```python'' @ nl @ ''z = 3'' @ nl @ ''```'' @ nl @
              '' Output Requirements'')],
            [(''role'', ''user''), (''content'', ''add y'')]],
         temperature = 0, top_p = 1, frequency_penalty = 0, presence_penalty = 0.5\<rparr>
       \<in> set (trace (snd (generate_task_plan_try memory_services ''add y''
                 \<lparr>world = demo_indexed True (Some ''1. Add y''), trace = []\<rparr>)))"
  using chat_request_is_fixed
    [where env = memory_services and system_prompt = "''You plan tasks.''"
       and user_query = "''add y''"
       and s = "\<lparr>world = demo_indexed True (Some ''1. Add y''), trace = []\<rparr>"
       and w = "demo_indexed True (Some ''1. Add y'')"]
  by (simp add: memory_services_def demo_world_def demo_indexed_def getitem_def
        format_code_context_def chat_request_def generate_task_plan_try_def
        search_code_base_def get_vector_embedding_def create_weaviate_client_def
        search_try_def get_chat_completion_def save_query_and_response_def
        query_filename_def query_content_def os_path_join_def datetime_now_def
        call_def print_def Let_def)

lemma save_query_and_response_run:
  assumes "makedirs env (QUERIES_DIR env) (world s) = (Inr (), wm)"
      and "clock env wm = (ta, wn)"
      and "clock env wn = (tb, wo)"
      and "write_file env (query_filename env ta)
             (query_content env tb query task_plan code_context) wo = (Inr (), wp)"
  shows "save_query_and_response env query task_plan code_context s =
           (Inr (),
            \<lparr>world = wp,
             trace = trace s @
               [MakeDirs (QUERIES_DIR env),
                WriteFile (query_filename env ta)
                  (query_content env tb query task_plan code_context),
                Print (nl @ ''Query and response saved to: '' @ query_filename env ta)]\<rparr>)"
  using assms
  by (simp add: save_query_and_response_def call_def print_def datetime_now_def Let_def)

lemma generate_task_plan_run:
  assumes "read_input env ''Enter your task description: '' (world s) = (Inr user_query, w0)"
      and "embedding_post env user_query w0 = (Inr v, w1)"
      and "connect env w1 = (Inr (), w2)"
      and "collections_get env ''CodeFile'' w2 = (Inr (), w3)"
      and "near_vector env v 5 w3 = (Inr objs, w4)"
      and "client_close env w4 = (Inr (), w5)"
      and "append_matches objs [] = Inr results"
      and "format_code_context results = Inr found_context"
      and "chat_post env
             (chat_request (SYSTEM_PROMPT_before env @ found_context @ SYSTEM_PROMPT_after env)
                user_query) w5 = (Inr answer, w6)"
      and "makedirs env (QUERIES_DIR env) w6 = (Inr (), w7)"
      and "clock env w7 = (ta, w8)"
      and "clock env w8 = (tb, w9)"
      and "write_file env (query_filename env ta)
             (query_content env tb user_query answer found_context) w9 = (Inr (), w10)"
  shows "generate_task_plan env s =
           (Inr (),
            \<lparr>world = w10,
             trace = trace s @
               [Input ''Enter your task description: '',
                Print (nl @ ''Searching for relevant code files...''),
                EmbeddingPost user_query, Connect, CollectionsGet ''CodeFile'',
                NearVector v 5, ClientClose,
                Print (nl @ ''Generating task plan...''),
                ChatPost
                  (chat_request
                     (SYSTEM_PROMPT_before env @ found_context @ SYSTEM_PROMPT_after env)
                     user_query),
                MakeDirs (QUERIES_DIR env),
                WriteFile (query_filename env ta)
                  (query_content env tb user_query answer found_context),
                Print (nl @ ''Query and response saved to: '' @ query_filename env ta),
                Print (nl @ ''Task Plan:''), Print (replicate 80 CHR ''=''),
                Print answer, Print (replicate 80 CHR ''='')]\<rparr>)"
proof -
  let ?s0 = "print (nl @ ''Searching for relevant code files...'')
               \<lparr>world = w0, trace = trace s @ [Input ''Enter your task description: '']\<rparr>"
  have emb: "embedding_post env user_query (world ?s0) = (Inr v, w1)"
    using assms(2) by (simp add: print_def)
  have nv: "near_vector env v (case None of None \<Rightarrow> 5 | Some l \<Rightarrow> l) w3 = (Inr objs, w4)"
    using assms(5) by simp
  have search: "search_code_base env user_query None ?s0 =
      (Inr results,
       \<lparr>world = w5,
        trace = trace ?s0 @ [EmbeddingPost user_query, Connect, CollectionsGet ''CodeFile'',
                            NearVector v 5, ClientClose]\<rparr>)"
    using search_code_base_ok[OF emb assms(3) assms(4) nv assms(6)] assms(7) by simp
  let ?s1 = "\<lparr>world = w5,
        trace = trace ?s0 @ [EmbeddingPost user_query, Connect, CollectionsGet ''CodeFile'',
                            NearVector v 5, ClientClose]\<rparr>"
  let ?sp = "SYSTEM_PROMPT_before env @ found_context @ SYSTEM_PROMPT_after env"
  let ?s2 = "\<lparr>world = w6,
        trace = trace ?s1 @ [Print (nl @ ''Generating task plan...''),
                            ChatPost (chat_request ?sp user_query)]\<rparr>"
  have chat: "get_chat_completion env ?sp user_query
                (print (nl @ ''Generating task plan...'') ?s1) = (Inr answer, ?s2)"
    using assms(9) by (simp add: get_chat_completion_def call_def print_def Let_def)
  have md: "makedirs env (QUERIES_DIR env) (world ?s2) = (Inr (), w7)"
    using assms(10) by simp
  note save = save_query_and_response_run[OF md assms(11) assms(12) assms(13)]
  show ?thesis
    using assms(1) assms(8) search chat save
    by (simp add: generate_task_plan_def generate_task_plan_try_def call_def print_def)
qed

text \<open>
  C7. The file that \<open>save_query_and_response\<close> writes is named \<open>query_\<close>, a timestamp
  of the clock and \<open>.md\<close>, in the directory \<open>QUERIES_DIR\<close>; its text has the query,
  the task plan and the code context as substrings. In a run of the task plan that
  ends without an exception, the file is written with the query as read, the answer of
  the chat endpoint and the code context of the search results; the same plan is the
  one printed, and the same code context is the one in the chat request. When every
  operation of a run of \<open>generate_task_plan\<close> succeeds, the run is exactly this: the
  query is read, the search is made, the chat endpoint is asked and answers with the
  plan, the directory is made, the file is written with that query, that plan and that
  code context, and the plan is printed.
\<close>

theorem saved_markdown_contains_query_and_plan:
  "(save_query_and_response env query task_plan code_context s = (Inr (), s') \<longrightarrow>
      (\<exists>t1 t2 wa wb.
         t1 = fst (clock env wa) \<and> t2 = fst (clock env wb) \<and>
         trace s' = trace s @
           [MakeDirs (QUERIES_DIR env),
            WriteFile
              (os_path_join (QUERIES_DIR env)
                 (''query_'' @ strftime env ''%Y%m%d_%H%M%S'' t1 @ ''.md''))
              (query_content env t2 query task_plan code_context),
            Print (nl @ ''Query and response saved to: '' @
                   os_path_join (QUERIES_DIR env)
                     (''query_'' @ strftime env ''%Y%m%d_%H%M%S'' t1 @ ''.md''))]))
   \<and> query_content env t query task_plan code_context =
       ''# Task Query - '' @ strftime env ''%Y-%m-%d %H:%M:%S'' t @ nl @ nl @
       ''## User Query'' @ nl @ query @ nl @ nl @
       ''## Task Plan'' @ nl @ task_plan @ nl @ nl @
       ''## Relevant Code Context'' @ nl @ code_context @ nl
   \<and> (\<exists>pre post. query_content env t query task_plan code_context = pre @ query @ post)
   \<and> (\<exists>pre post. query_content env t query task_plan code_context = pre @ task_plan @ post)
   \<and> (\<exists>pre post. query_content env t query task_plan code_context = pre @ code_context @ post)
   \<and> (generate_task_plan_try env user_query s = (Inr (), s'') \<longrightarrow>
      (\<exists>search_results code_context' task_plan' t1 t2 wa wb wc evs.
         fst (search_code_base env user_query None
                (print (nl @ ''Searching for relevant code files...'') s))
           = Inr search_results \<and>
         format_code_context search_results = Inr code_context' \<and>
         fst (chat_post env
                (chat_request
                   (SYSTEM_PROMPT_before env @ code_context' @ SYSTEM_PROMPT_after env)
                   user_query) wc) = Inr task_plan' \<and>
         t1 = fst (clock env wa) \<and> t2 = fst (clock env wb) \<and>
         trace s'' = trace s @ evs @
           [ChatPost
              (chat_request
                 (SYSTEM_PROMPT_before env @ code_context' @ SYSTEM_PROMPT_after env)
                 user_query),
            MakeDirs (QUERIES_DIR env),
            WriteFile
              (os_path_join (QUERIES_DIR env)
                 (''query_'' @ strftime env ''%Y%m%d_%H%M%S'' t1 @ ''.md''))
              (query_content env t2 user_query task_plan' code_context'),
            Print (nl @ ''Query and response saved to: '' @
                   os_path_join (QUERIES_DIR env)
                     (''query_'' @ strftime env ''%Y%m%d_%H%M%S'' t1 @ ''.md'')),
            Print (nl @ ''Task Plan:''), Print (replicate 80 CHR ''=''),
            Print task_plan', Print (replicate 80 CHR ''='')]))
   \<and> (makedirs env (QUERIES_DIR env) (world s) = (Inr (), wm) \<and>
      clock env wm = (ta, wn) \<and> clock env wn = (tb, wo) \<and>
      write_file env
        (os_path_join (QUERIES_DIR env)
           (''query_'' @ strftime env ''%Y%m%d_%H%M%S'' ta @ ''.md''))
        (query_content env tb query task_plan code_context) wo = (Inr (), wp) \<longrightarrow>
      save_query_and_response env query task_plan code_context s =
        (Inr (),
         \<lparr>world = wp,
          trace = trace s @
            [MakeDirs (QUERIES_DIR env),
             WriteFile
               (os_path_join (QUERIES_DIR env)
                  (''query_'' @ strftime env ''%Y%m%d_%H%M%S'' ta @ ''.md''))
               (query_content env tb query task_plan code_context),
             Print (nl @ ''Query and response saved to: '' @
                    os_path_join (QUERIES_DIR env)
                      (''query_'' @ strftime env ''%Y%m%d_%H%M%S'' ta @ ''.md''))]\<rparr>))
   \<and> (read_input env ''Enter your task description: '' (world s) = (Inr user_query, w0) \<and>
      embedding_post env user_query w0 = (Inr v, w1) \<and>
      connect env w1 = (Inr (), w2) \<and>
      collections_get env ''CodeFile'' w2 = (Inr (), w3) \<and>
      near_vector env v 5 w3 = (Inr objs, w4) \<and>
      client_close env w4 = (Inr (), w5) \<and>
      append_matches objs [] = Inr results \<and>
      format_code_context results = Inr found_context \<and>
      chat_post env
        (chat_request (SYSTEM_PROMPT_before env @ found_context @ SYSTEM_PROMPT_after env)
           user_query) w5 = (Inr answer, w6) \<and>
      makedirs env (QUERIES_DIR env) w6 = (Inr (), w7) \<and>
      clock env w7 = (ta, w8) \<and> clock env w8 = (tb, w9) \<and>
      write_file env
        (os_path_join (QUERIES_DIR env)
           (''query_'' @ strftime env ''%Y%m%d_%H%M%S'' ta @ ''.md''))
        (query_content env tb user_query answer found_context) w9 = (Inr (), w10) \<longrightarrow>
      generate_task_plan env s =
        (Inr (),
         \<lparr>world = w10,
          trace = trace s @
            [Input ''Enter your task description: '',
             Print (nl @ ''Searching for relevant code files...''),
             EmbeddingPost user_query, Connect, CollectionsGet ''CodeFile'',
             NearVector v 5, ClientClose,
             Print (nl @ ''Generating task plan...''),
             ChatPost
               (chat_request
                  (SYSTEM_PROMPT_before env @ found_context @ SYSTEM_PROMPT_after env)
                  user_query),
             MakeDirs (QUERIES_DIR env),
             WriteFile
               (os_path_join (QUERIES_DIR env)
                  (''query_'' @ strftime env ''%Y%m%d_%H%M%S'' ta @ ''.md''))
               (query_content env tb user_query answer found_context),
             Print (nl @ ''Query and response saved to: '' @
                    os_path_join (QUERIES_DIR env)
                      (''query_'' @ strftime env ''%Y%m%d_%H%M%S'' ta @ ''.md'')),
             Print (nl @ ''Task Plan:''), Print (replicate 80 CHR ''=''),
             Print answer, Print (replicate 80 CHR ''='')]\<rparr>))"
  (is "(?hs \<longrightarrow> ?cs) \<and> ?body \<and> ?q \<and> ?p \<and> ?c \<and> (?hr \<longrightarrow> ?cr) \<and>
       (?hsave \<longrightarrow> ?csave) \<and> (?hgen \<longrightarrow> ?cgen)")
proof -
  have save: "?hs \<longrightarrow> ?cs"
    using save_query_and_response_ok[of env query task_plan code_context s s']
    by (simp add: query_filename_def)
  have body: ?body
    by (simp add: query_content_def)
  have run: "?hr \<longrightarrow> ?cr"
  proof
    assume ?hr
    from generate_task_plan_try_ok[OF this]
    obtain search_results s1 ctx plan s2 s3 where
      search: "search_code_base env user_query None
                 (print (nl @ ''Searching for relevant code files...'') s)
                 = (Inr search_results, s1)" and
      fmt: "format_code_context search_results = Inr ctx" and
      chat: "get_chat_completion env
               (SYSTEM_PROMPT_before env @ ctx @ SYSTEM_PROMPT_after env) user_query
               (print (nl @ ''Generating task plan...'') s1) = (Inr plan, s2)" and
      saved: "save_query_and_response env user_query plan ctx s2 = (Inr (), s3)" and
      final: "s'' = print (replicate 80 CHR ''='')
                  (print plan
                     (print (replicate 80 CHR ''='') (print (nl @ ''Task Plan:'') s3)))"
      by blast
    let ?sp = "SYSTEM_PROMPT_before env @ ctx @ SYSTEM_PROMPT_after env"
    let ?s0 = "print (nl @ ''Searching for relevant code files...'') s"
    let ?s1 = "print (nl @ ''Generating task plan...'') s1"
    obtain evs1 where evs1: "trace s1 = trace ?s0 @ evs1"
      using search_code_base_events[of env user_query None ?s0] search by auto
    from get_chat_completion_events[of env ?sp user_query ?s1] chat
    have t2: "trace s2 = trace ?s1 @ [ChatPost (chat_request ?sp user_query)]"
      and answer: "fst (chat_post env (chat_request ?sp user_query) (world ?s1)) = Inr plan"
      by auto
    from save_query_and_response_ok[OF saved]
    obtain t1 t2 wa wb where
      clocks: "t1 = fst (clock env wa)" "t2 = fst (clock env wb)" and
      t3: "trace s3 = trace s2 @
             [MakeDirs (QUERIES_DIR env),
              WriteFile (query_filename env t1) (query_content env t2 user_query plan ctx),
              Print (nl @ ''Query and response saved to: '' @ query_filename env t1)]"
      by blast
    have "trace s'' = trace s @
           ([Print (nl @ ''Searching for relevant code files...'')] @ evs1 @
            [Print (nl @ ''Generating task plan...'')]) @
           [ChatPost (chat_request ?sp user_query),
            MakeDirs (QUERIES_DIR env),
            WriteFile
              (os_path_join (QUERIES_DIR env)
                 (''query_'' @ strftime env ''%Y%m%d_%H%M%S'' t1 @ ''.md''))
              (query_content env t2 user_query plan ctx),
            Print (nl @ ''Query and response saved to: '' @
                   os_path_join (QUERIES_DIR env)
                     (''query_'' @ strftime env ''%Y%m%d_%H%M%S'' t1 @ ''.md'')),
            Print (nl @ ''Task Plan:''), Print (replicate 80 CHR ''=''),
            Print plan, Print (replicate 80 CHR ''='')]"
      using final t3 t2 evs1 by (simp add: print_def query_filename_def)
    with search fmt answer clocks show ?cr
      by (metis fst_conv)
  qed
  have save_run: "?hsave \<longrightarrow> ?csave"
    using save_query_and_response_run[of env s wm ta wn tb wo query task_plan code_context wp]
    by (simp add: query_filename_def)
  have gen_run: "?hgen \<longrightarrow> ?cgen"
    using generate_task_plan_run
      [of env s user_query w0 v w1 w2 w3 objs w4 w5 results found_context answer w6 w7 ta w8 tb
          w9 w10]
    by (simp add: query_filename_def)
  from save body query_content_contains[of env t query task_plan code_context] run
    save_run gen_run
  show ?thesis by blast
qed

theorem saved_markdown_contains_query_and_plan_witness:
  "generate_task_plan_try memory_services ''add y''
     \<lparr>world = demo_indexed True (Some ''1. Add y''), trace = []\<rparr>
   = (Inr (),
      \<lparr>world = (demo_indexed True (Some ''1. Add y''))
          \<lparr>mw_written :=
             [(''scripts/queries/query_20240101_000000.md'',
               ''# Task Query - 2024-01-01 00:00:00'' @ nl @ nl @
               ''## User Query'' @ nl @ ''add y'' @ nl @ nl @
               ''## Task Plan'' @ nl @ ''1. Add y'' @ nl @ nl @
               ''## Relevant Code Context'' @ nl @
               ''File: b.py'' @ nl @ ''```python'' @ nl @ ''y = 2'' @ nl @ ''```'' @ nl @ nl @
               ''File: c.py'' @ nl @ ''```python'' @ nl @ ''z = 3'' @ nl @ ''```'' @ nl @
               nl)]\<rparr>,
       trace =
         [Print (nl @ ''Searching for relevant code files...''),
          EmbeddingPost ''add y'', Connect, CollectionsGet ''CodeFile'',
          NearVector [1, 2] 5, ClientClose,
          Print (nl @ ''Generating task plan...''),
          ChatPost
            (chat_request
               (''Relevant Code snippets: '' @
                ''File: b.py'' @ nl @ ''```python'' @ nl @ ''y = 2'' @ nl @ ''```'' @ nl @ nl @
                ''File: c.py'' @ nl @ ''```python'' @ nl @ ''z = 3'' @ nl @ ''```'' @ nl @
                '' Output Requirements'') ''add y''),
          MakeDirs ''scripts/queries'',
          WriteFile ''scripts/queries/query_20240101_000000.md''
            (''# Task Query - 2024-01-01 00:00:00'' @ nl @ nl @
             ''## User Query'' @ nl @ ''add y'' @ nl @ nl @
             ''## Task Plan'' @ nl @ ''1. Add y'' @ nl @ nl @
             ''## Relevant Code Context'' @ nl @
             ''File: b.py'' @ nl @ ''```python'' @ nl @ ''y = 2'' @ nl @ ''```'' @ nl @ nl @
             ''File: c.py'' @ nl @ ''```python'' @ nl @ ''z = 3'' @ nl @ ''```'' @ nl @
             nl),
          Print (nl @ ''Query and response saved to: '' @
                 ''scripts/queries/query_20240101_000000.md''),
          Print (nl @ ''Task Plan:''), Print (replicate 80 CHR ''=''),
          Print ''1. Add y'', Print (replicate 80 CHR ''='')]\<rparr>)
   \<and> save_query_and_response memory_services ''add y'' ''1. Add y'' ''y = 2''
     \<lparr>world = demo_indexed True None, trace = []\<rparr>
   = (Inr (),
      \<lparr>world = (demo_indexed True None)
          \<lparr>mw_written :=
             [(''scripts/queries/query_20240101_000000.md'',
               ''# Task Query - 2024-01-01 00:00:00'' @ nl @ nl @
               ''## User Query'' @ nl @ ''add y'' @ nl @ nl @
               ''## Task Plan'' @ nl @ ''1. Add y'' @ nl @ nl @
               ''## Relevant Code Context'' @ nl @ ''y = 2'' @ nl)]\<rparr>,
       trace =
         [MakeDirs ''scripts/queries'',
          WriteFile ''scripts/queries/query_20240101_000000.md''
            (''# Task Query - 2024-01-01 00:00:00'' @ nl @ nl @
             ''## User Query'' @ nl @ ''add y'' @ nl @ nl @
             ''## Task Plan'' @ nl @ ''1. Add y'' @ nl @ nl @
             ''## Relevant Code Context'' @ nl @ ''y = 2'' @ nl),
          Print (nl @ ''Query and response saved to: '' @
                 ''scripts/queries/query_20240101_000000.md'')]\<rparr>)
   \<and> read_input memory_services ''Enter your task description: ''
       (world \<lparr>world = demo_indexed True (Some ''1. Add y''), trace = []\<rparr>)
     = (Inr ''add y'', demo_indexed True (Some ''1. Add y''))
   \<and> chat_post memory_services
       (chat_request
          (SYSTEM_PROMPT_before memory_services @
           (''File: b.py'' @ nl @ ''```python'' @ nl @ ''y = 2'' @ nl @ ''```'' @ nl @ nl @
             ''File: c.py'' @ nl @ ''```python'' @ nl @ ''z = 3'' @ nl @ ''```'' @ nl) @
           SYSTEM_PROMPT_after memory_services) ''add y'')
       (demo_indexed True (Some ''1. Add y''))
     = (Inr ''1. Add y'', demo_indexed True (Some ''1. Add y''))
   \<and> write_file memory_services ''scripts/queries/query_20240101_000000.md''
       (''# Task Query - 2024-01-01 00:00:00'' @ nl @ nl @
             ''## User Query'' @ nl @ ''add y'' @ nl @ nl @
             ''## Task Plan'' @ nl @ ''1. Add y'' @ nl @ nl @
             ''## Relevant Code Context'' @ nl @
             ''File: b.py'' @ nl @ ''```python'' @ nl @ ''y = 2'' @ nl @ ''```'' @ nl @ nl @
             ''File: c.py'' @ nl @ ''```python'' @ nl @ ''z = 3'' @ nl @ ''```'' @ nl @
             nl)
       (demo_indexed True (Some ''1. Add y''))
     = (Inr (), (demo_indexed True (Some ''1. Add y''))
          \<lparr>mw_written :=
             [(''scripts/queries/query_20240101_000000.md'',
               (''# Task Query - 2024-01-01 00:00:00'' @ nl @ nl @
             ''## User Query'' @ nl @ ''add y'' @ nl @ nl @
             ''## Task Plan'' @ nl @ ''1. Add y'' @ nl @ nl @
             ''## Relevant Code Context'' @ nl @
             ''File: b.py'' @ nl @ ''```python'' @ nl @ ''y = 2'' @ nl @ ''```'' @ nl @ nl @
             ''File: c.py'' @ nl @ ''```python'' @ nl @ ''z = 3'' @ nl @ ''```'' @ nl @
             nl))]\<rparr>)
   \<and> generate_task_plan memory_services
       \<lparr>world = demo_indexed True (Some ''1. Add y''), trace = []\<rparr>
     = (Inr (),
        \<lparr>world = (demo_indexed True (Some ''1. Add y''))
          \<lparr>mw_written :=
             [(''scripts/queries/query_20240101_000000.md'',
               (''# Task Query - 2024-01-01 00:00:00'' @ nl @ nl @
             ''## User Query'' @ nl @ ''add y'' @ nl @ nl @
             ''## Task Plan'' @ nl @ ''1. Add y'' @ nl @ nl @
             ''## Relevant Code Context'' @ nl @
             ''File: b.py'' @ nl @ ''```python'' @ nl @ ''y = 2'' @ nl @ ''```'' @ nl @ nl @
             ''File: c.py'' @ nl @ ''```python'' @ nl @ ''z = 3'' @ nl @ ''```'' @ nl @
             nl))]\<rparr>,
         trace =
           [Input ''Enter your task description: '',
            Print (nl @ ''Searching for relevant code files...''),
            EmbeddingPost ''add y'', Connect, CollectionsGet ''CodeFile'',
            NearVector [1, 2] 5, ClientClose,
            Print (nl @ ''Generating task plan...''),
            ChatPost
              (chat_request
                 (''Relevant Code snippets: '' @
                  ''File: b.py'' @ nl @ ''```python'' @ nl @ ''y = 2'' @ nl @ ''```'' @ nl @ nl @
             ''File: c.py'' @ nl @ ''```python'' @ nl @ ''z = 3'' @ nl @ ''```'' @ nl @
                  '' Output Requirements'') ''add y''),
            MakeDirs ''scripts/queries'',
            WriteFile ''scripts/queries/query_20240101_000000.md''
              (''# Task Query - 2024-01-01 00:00:00'' @ nl @ nl @
             ''## User Query'' @ nl @ ''add y'' @ nl @ nl @
             ''## Task Plan'' @ nl @ ''1. Add y'' @ nl @ nl @
             ''## Relevant Code Context'' @ nl @
             ''File: b.py'' @ nl @ ''```python'' @ nl @ ''y = 2'' @ nl @ ''```'' @ nl @ nl @
             ''File: c.py'' @ nl @ ''```python'' @ nl @ ''z = 3'' @ nl @ ''```'' @ nl @
             nl),
            Print (nl @ ''Query and response saved to: '' @
                   ''scripts/queries/query_20240101_000000.md''),
            Print (nl @ ''Task Plan:''), Print (replicate 80 CHR ''=''),
            Print ''1. Add y'', Print (replicate 80 CHR ''='')]\<rparr>)"
  (is "?tried \<and> ?save \<and> ?inp \<and> ?chat \<and> ?wfile \<and> ?gen")
proof -
  note gen_inst = saved_markdown_contains_query_and_plan
    [where env = memory_services and user_query = "''add y''"
       and s = "\<lparr>world = demo_indexed True (Some ''1. Add y''), trace = []\<rparr>"
       and ?w0.0 = "demo_indexed True (Some ''1. Add y'')"
       and ?w1.0 = "demo_indexed True (Some ''1. Add y'')"
       and ?w2.0 = "demo_indexed True (Some ''1. Add y'')"
       and ?w3.0 = "demo_indexed True (Some ''1. Add y'')"
       and ?w4.0 = "demo_indexed True (Some ''1. Add y'')"
       and ?w5.0 = "demo_indexed True (Some ''1. Add y'')"
       and ?w6.0 = "demo_indexed True (Some ''1. Add y'')"
       and ?w7.0 = "demo_indexed True (Some ''1. Add y'')"
       and ?w8.0 = "demo_indexed True (Some ''1. Add y'')"
       and ?w9.0 = "demo_indexed True (Some ''1. Add y'')"
       and ?w10.0 = "(demo_indexed True (Some ''1. Add y''))
          \<lparr>mw_written :=
             [(''scripts/queries/query_20240101_000000.md'',
               (''# Task Query - 2024-01-01 00:00:00'' @ nl @ nl @
             ''## User Query'' @ nl @ ''add y'' @ nl @ nl @
             ''## Task Plan'' @ nl @ ''1. Add y'' @ nl @ nl @
             ''## Relevant Code Context'' @ nl @
             ''File: b.py'' @ nl @ ''```python'' @ nl @ ''y = 2'' @ nl @ ''```'' @ nl @ nl @
             ''File: c.py'' @ nl @ ''```python'' @ nl @ ''z = 3'' @ nl @ ''```'' @ nl @
             nl))]\<rparr>"
       and v = "[1, 2]" and ta = 0 and tb = 0 and answer = "''1. Add y''"
       and objs = "[\<lparr>properties = [(''file_path'', ''b.py''), (''content'', ''y = 2'')]\<rparr>,
             \<lparr>properties = [(''file_path'', ''c.py''), (''content'', ''z = 3'')]\<rparr>]"
       and results = "[[(''file_path'', ''b.py''), (''content'', ''y = 2'')],
             [(''file_path'', ''c.py''), (''content'', ''z = 3'')]]"
       and found_context =
         "''File: b.py'' @ nl @ ''```python'' @ nl @ ''y = 2'' @ nl @ ''```'' @ nl @ nl @
             ''File: c.py'' @ nl @ ''```python'' @ nl @ ''z = 3'' @ nl @ ''```'' @ nl"]
  note save_inst = saved_markdown_contains_query_and_plan
    [where env = memory_services and query = "''add y''" and task_plan = "''1. Add y''"
       and code_context = "''y = 2''" and t = 0 and user_query = "''add y''"
       and s = "\<lparr>world = demo_indexed True None, trace = []\<rparr>"
       and wm = "demo_indexed True None" and wn = "demo_indexed True None"
       and wo = "demo_indexed True None" and ta = 0 and tb = 0
       and wp = "(demo_indexed True None)
          \<lparr>mw_written :=
             [(''scripts/queries/query_20240101_000000.md'',
               ''# Task Query - 2024-01-01 00:00:00'' @ nl @ nl @
               ''## User Query'' @ nl @ ''add y'' @ nl @ nl @
               ''## Task Plan'' @ nl @ ''1. Add y'' @ nl @ nl @
               ''## Relevant Code Context'' @ nl @ ''y = 2'' @ nl)]\<rparr>"
       and s' = "\<lparr>world = (demo_indexed True None)
          \<lparr>mw_written :=
             [(''scripts/queries/query_20240101_000000.md'',
               ''# Task Query - 2024-01-01 00:00:00'' @ nl @ nl @
               ''## User Query'' @ nl @ ''add y'' @ nl @ nl @
               ''## Task Plan'' @ nl @ ''1. Add y'' @ nl @ nl @
               ''## Relevant Code Context'' @ nl @ ''y = 2'' @ nl)]\<rparr>,
       trace =
         [MakeDirs ''scripts/queries'',
          WriteFile ''scripts/queries/query_20240101_000000.md''
            (''# Task Query - 2024-01-01 00:00:00'' @ nl @ nl @
             ''## User Query'' @ nl @ ''add y'' @ nl @ nl @
             ''## Task Plan'' @ nl @ ''1. Add y'' @ nl @ nl @
             ''## Relevant Code Context'' @ nl @ ''y = 2'' @ nl),
          Print (nl @ ''Query and response saved to: '' @
                 ''scripts/queries/query_20240101_000000.md'')]\<rparr>"
       and s'' = "\<lparr>world = demo_indexed True None, trace = []\<rparr>"]
  have inp: ?inp
    by (simp add: memory_services_def demo_world_def demo_indexed_def)
  have chat: ?chat
    by (simp add: memory_services_def demo_world_def demo_indexed_def)
  have wr: ?wfile
    by (simp add: memory_services_def demo_world_def demo_indexed_def)
  have gen: ?gen
    using gen_inst
    by (simp add: memory_services_def demo_world_def demo_indexed_def getitem_def
          format_code_context_def chat_request_def query_content_def os_path_join_def)
  have save: ?save
    using save_inst
    by (simp add: memory_services_def demo_world_def demo_indexed_def
          query_content_def os_path_join_def)
  have tried: ?tried
    by (simp add: memory_services_def demo_world_def demo_indexed_def getitem_def
          format_code_context_def chat_request_def generate_task_plan_try_def
          search_code_base_def get_vector_embedding_def create_weaviate_client_def
          search_try_def get_chat_completion_def save_query_and_response_def
          query_filename_def query_content_def os_path_join_def datetime_now_def
          call_def print_def Let_def)
  show ?thesis
    by (intro conjI tried save inp chat wr gen)
qed

end
